theory Spec2Isabelle
  imports Complex_Main
begin

section \<open>JavaScript strings and values\<close>

text \<open>
  The endpoint is JavaScript. A JavaScript string is a sequence of UTF-16 code units; it is
  modelled as the list of their numbers. The source's literals are mostly ASCII and written
  with \<open>asc\<close>; a character outside ASCII appears as its code unit, e.g. 8217 for the
  right single quotation mark, 8209 for the non-breaking hyphen, 8211 for the en dash.
\<close>

type_synonym jsstring = "nat list"

definition asc :: "string \<Rightarrow> jsstring" where
  "asc s = map of_char s"

text \<open>
  The Node handler passes the \<open>profile\<close> and \<open>answers\<close> of the parsed JSON body on
  as they are, so a property of either is any JSON value (\<open>null\<close>, a boolean, a number,
  a string, an array, an object) or is absent (\<open>undefined\<close>). A JSON number is a double;
  it is kept as the rational it denotes. A value is falsy when it is \<open>undefined\<close>,
  \<open>null\<close>, \<open>false\<close>, zero or the empty string. A \<open>profile\<close> or \<open>answers\<close>
  that is itself not an object has none of the properties the scorer reads, as an object
  without them.
\<close>

datatype jsval =
    Undefined
  | Null
  | Bool bool
  | Num rat
  | Str jsstring
  | Arr "jsval list"
  | Obj "(jsstring \<times> jsval) list"

datatype error = TypeError

definition truthy :: "jsval \<Rightarrow> bool" where
  "truthy v =
     (case v of
        Undefined \<Rightarrow> False
      | Null \<Rightarrow> False
      | Bool b \<Rightarrow> b
      | Num x \<Rightarrow> x \<noteq> 0
      | Str s \<Rightarrow> s \<noteq> []
      | Arr xs \<Rightarrow> True
      | Obj ps \<Rightarrow> True)"

text \<open>The operator \<open>a || b\<close>.\<close>

definition or_js :: "jsval \<Rightarrow> jsval \<Rightarrow> jsval" where
  "or_js a b = (if truthy a then a else b)"

text \<open>
  The code units that \<open>\s\<close> matches in a regular expression and that \<open>trim\<close>
  removes: white space and line terminators of ECMAScript.
\<close>

definition isWhiteSpace :: "nat \<Rightarrow> bool" where
  "isWhiteSpace c \<longleftrightarrow>
     c \<in> {9, 10, 11, 12, 13, 32, 160, 5760, 8232, 8233, 8239, 8287, 12288, 65279}
     \<or> (8192 \<le> c \<and> c \<le> 8202)"

definition trim :: "jsstring \<Rightarrow> jsstring" where
  "trim s = rev (dropWhile isWhiteSpace (rev (dropWhile isWhiteSpace s)))"

text \<open>
  The call \<open>v.trim()\<close>. It throws a \<open>TypeError\<close> when \<open>v\<close> is not a string:
  \<open>undefined\<close> and \<open>null\<close> have no properties, and a number, boolean, array or
  object of a JSON body has no function \<open>trim\<close>. The same holds for
  \<open>v.toLowerCase()\<close>.
\<close>

definition call_trim :: "jsval \<Rightarrow> error + jsstring" where
  "call_trim v = (case v of Str s \<Rightarrow> Inr (trim s) | _ \<Rightarrow> Inl TypeError)"

text \<open>
  \<open>toLowerCase\<close>. The program only filters the lowered text down to \<open>[a-z0-9\s]\<close>
  or searches it for ASCII patterns, so what matters is which code units lower to ASCII:
  the capital letters A to Z, the Kelvin sign (8490, lowered to k) and the dotted capital I
  (304, lowered to i followed by the combining dot 775). Unicode lower-casing maps every
  other code unit outside ASCII to code units outside ASCII; they are kept as they are.
\<close>

definition lowerUnit :: "nat \<Rightarrow> jsstring" where
  "lowerUnit c =
     (if 65 \<le> c \<and> c \<le> 90 then [c + 32]
      else if c = 304 then [105, 775]
      else if c = 8490 then [107]
      else [c])"

definition toLowerCase :: "jsstring \<Rightarrow> jsstring" where
  "toLowerCase s = concat (map lowerUnit s)"

definition call_toLowerCase :: "jsval \<Rightarrow> error + jsstring" where
  "call_toLowerCase v = (case v of Str s \<Rightarrow> Inr (toLowerCase s) | _ \<Rightarrow> Inl TypeError)"

text \<open>\<open>s.includes(p)\<close>: \<open>p\<close> occurs in \<open>s\<close> as a contiguous run.\<close>

fun includes_str :: "jsstring \<Rightarrow> jsstring \<Rightarrow> bool" where
  "includes_str [] p = (p = [])"
| "includes_str (c # cs) p = (take (length p) (c # cs) = p \<or> includes_str cs p)"

text \<open>\<open>s.replace(/[^a-z0-9\s]/g, '')\<close>: every code unit outside the class is removed.\<close>

definition isLowerOrDigit :: "nat \<Rightarrow> bool" where
  "isLowerOrDigit c \<longleftrightarrow> (97 \<le> c \<and> c \<le> 122) \<or> (48 \<le> c \<and> c \<le> 57)"

definition replaceNonAlnum :: "jsstring \<Rightarrow> jsstring" where
  "replaceNonAlnum s = filter (\<lambda>c. isLowerOrDigit c \<or> isWhiteSpace c) s"

text \<open>
  \<open>s.split(/\s+/)\<close>: the pieces between the maximal runs of white space. A run at the
  start or at the end of \<open>s\<close> leaves an empty piece there, and the empty string splits
  into one empty piece. \<open>inRun\<close> tells that the previous code unit was white space;
  \<open>cur\<close> is the piece being read, reversed.
\<close>

fun splitRuns :: "bool \<Rightarrow> jsstring \<Rightarrow> jsstring \<Rightarrow> jsstring list" where
  "splitRuns inRun cur [] = [rev cur]"
| "splitRuns inRun cur (c # cs) =
     (if isWhiteSpace c then
        (if inRun then splitRuns True cur cs else rev cur # splitRuns True [] cs)
      else splitRuns False (c # cur) cs)"

definition split_ws :: "jsstring \<Rightarrow> jsstring list" where
  "split_ws s = splitRuns False [] s"

section \<open>The fallback scorer: classifying one answer\<close>

datatype level = LNone | LEmerging | LBasic | LAdvanced | LLeading

text \<open>The label the code writes for a level or band.\<close>

fun levelLabel :: "level \<Rightarrow> jsstring" where
  "levelLabel LNone = asc ''None''"
| "levelLabel LEmerging = asc ''Emerging''"
| "levelLabel LBasic = asc ''Basic''"
| "levelLabel LAdvanced = asc ''Advanced''"
| "levelLabel LLeading = asc ''Leading''"

fun levelRank :: "level \<Rightarrow> nat" where
  "levelRank LNone = 0"
| "levelRank LEmerging = 1"
| "levelRank LBasic = 2"
| "levelRank LAdvanced = 3"
| "levelRank LLeading = 4"

record category =
  cat_name :: jsstring
  cat_key :: jsstring

definition categories :: "category list" where
  "categories =
    [\<lparr>cat_name = asc ''Why change'', cat_key = asc ''q1''\<rparr>,
     \<lparr>cat_name = asc ''Why now'', cat_key = asc ''q2''\<rparr>,
     \<lparr>cat_name = asc ''Why your company'', cat_key = asc ''q3''\<rparr>,
     \<lparr>cat_name = asc ''Emotion'' @ [8211] @ asc ''Logic'', cat_key = asc ''q4''\<rparr>,
     \<lparr>cat_name = asc ''Buyer'' @ [8209] @ asc ''as'' @ [8209] @ asc ''hero'', cat_key = asc ''q5''\<rparr>,
     \<lparr>cat_name = asc ''Clarity'', cat_key = asc ''q6''\<rparr>]"

definition wordCount :: "jsstring \<Rightarrow> nat" where
  "wordCount ans = (if ans \<noteq> [] then length (split_ws ans) else 0)"

definition unknownPatterns :: "jsstring list" where
  "unknownPatterns =
    [asc ''i don't know'',
     asc ''i don'' @ [8217] @ asc ''t know'',
     asc ''dont know'',
     asc ''do not know'',
     asc ''unknown'',
     asc ''none'',
     asc ''n/a'',
     asc ''na'',
     asc ''inexistent'',
     asc ''no idea'',
     asc ''not sure'',
     asc ''don'' @ [8217] @ asc ''t have'',
     asc ''don't have'',
     asc ''dont have'',
     asc ''missing'',
     asc ''not available'',
     asc ''unavailable'',
     asc ''not provided'',
     asc ''not existing'',
     asc ''not exist'',
     asc ''no data'',
     asc ''no information'',
     asc ''not applicable'',
     asc ''not present'',
     asc ''not disposable'']"

definition normalised :: "jsstring \<Rightarrow> jsstring" where
  "normalised ans = trim (replaceNonAlnum (toLowerCase ans))"

definition isUnknown :: "jsstring \<Rightarrow> bool" where
  "isUnknown ans \<longleftrightarrow> length (normalised ans) = 0 \<or> normalised ans \<in> set unknownPatterns"

text \<open>The score and level of one trimmed answer \<open>ans\<close>.\<close>

definition scoreLevel :: "jsstring \<Rightarrow> nat \<times> level" where
  "scoreLevel ans =
     (if isUnknown ans then (1, LNone)
      else if wordCount ans < 15 then (2, LEmerging)
      else if wordCount ans < 40 then (3, LBasic)
      else if wordCount ans < 80 then (4, LAdvanced)
      else (5, LLeading))"

section \<open>The narrative templates\<close>

record message =
  msg_why :: jsstring
  msg_how :: jsstring

definition messageTemplates :: "jsstring \<rightharpoonup> (level \<rightharpoonup> message)" where
  "messageTemplates = map_of
    [(asc ''Why change'', map_of [
        (LNone, \<lparr>
          msg_why = asc ''Your answer is missing or expresses uncertainty about the buyer or their pain. Without identifying who you serve and what problem they face, there is no foundation for explaining why a change is needed. This dimension remains unaddressed because there is nothing to evaluate.'',
          msg_how = asc ''Start by researching your ideal buyer and documenting their top pain points. Talk to customers to uncover the emotional drivers behind the problem and quantify its impact. Use those insights to craft a clear statement about why the status quo is unacceptable and change is necessary.''\<rparr>),
        (LEmerging, \<lparr>
          msg_why = asc ''You hint at a buyer or problem, but the connection is shallow. You don'' @ [8217] @ asc ''t describe the person, the context or the consequences of the pain. As a result, readers cannot understand why this issue matters or why your buyer should pay attention.'',
          msg_how = asc ''Clarify who your buyer is and describe their pain in vivid detail. Explain how the problem affects their goals and well'' @ [8209] @ asc ''being. Use anecdotes or data to show the scale of the pain and why it cannot be ignored. This will strengthen your case for change.''\<rparr>),
        (LBasic, \<lparr>
          msg_why = asc ''You identify the buyer and state a clear pain, but the description is surface'' @ [8209] @ asc ''level. It lacks depth about the emotional stakes or the quantifiable cost of the problem. Without deeper insight, it fails to inspire action or convey urgency.'',
          msg_how = asc ''Deepen your explanation by highlighting the emotions driving the buyer'' @ [8217] @ asc ''s pain and quantifying the cost of inaction. Add customer stories or industry statistics. Show empathy for the buyer'' @ [8217] @ asc ''s struggle and connect the pain to concrete business outcomes to motivate change.''\<rparr>),
        (LAdvanced, \<lparr>
          msg_why = asc ''You articulate the buyer and their pain with a good balance of storytelling and data. However, the answer could benefit from unique insights or broader industry context that underscores the problem'' @ [8217] @ asc ''s significance. Without fresh perspectives, it might still feel generic.'',
          msg_how = asc ''Enrich your narrative with proprietary research or market trends that show why the pain persists. Connect the buyer'' @ [8217] @ asc ''s frustration to larger industry shifts and emphasise why existing solutions fall short. Position your insight as uniquely suited to address these deeper challenges.''\<rparr>),
        (LLeading, \<lparr>
          msg_why = asc ''Your description of the buyer'' @ [8217] @ asc ''s pain is comprehensive and compelling. It seamlessly blends empathy with quantifiable evidence, making a persuasive case for change. You demonstrate deep understanding of the buyer'' @ [8217] @ asc ''s world and why the current situation cannot stand.'',
          msg_how = asc ''Continue to refine your insights by gathering ongoing feedback from buyers. Share new stories and data to keep your narrative fresh. Ensure all internal teams align on this message and adapt it as your market evolves, reinforcing your leadership position.''\<rparr>)]),
     (asc ''Why now'', map_of [
        (LNone, \<lparr>
          msg_why = asc ''You did not identify any trigger or sense of urgency. Without specifying what makes this issue critical in the next months, there is no reason to prioritise it. The urgency dimension cannot be scored without context.'',
          msg_how = asc ''Look for specific triggers that make acting in the next three to six months essential. These could be competitive threats, regulatory deadlines, market trends or budget cycles. Explain how waiting would hurt the buyer and quantify the implications of delay.''\<rparr>),
        (LEmerging, \<lparr>
          msg_why = asc ''You suggest a reason to act now, but the explanation lacks depth and connection to the buyer'' @ [8217] @ asc ''s business. The urgency feels generic and does not convey why action within the next months is critical.'',
          msg_how = asc ''Describe the catalyst that makes this issue urgent and tie it to tangible consequences. Use stories or data showing the impact of recent market changes or upcoming deadlines. Highlight what happens if action is delayed beyond a three'' @ [8209] @ asc ''to'' @ [8209] @ asc ''six'' @ [8209] @ asc ''month window.''\<rparr>),
        (LBasic, \<lparr>
          msg_why = asc ''You provide a reason to act now, but it lacks evidence or emotional resonance. The trigger is stated but not fully explored or linked to the buyer'' @ [8217] @ asc ''s pain. As a result, the sense of urgency remains moderate.'',
          msg_how = asc ''Strengthen the urgency by quantifying the costs of delay and linking the trigger to milestones in the buyer'' @ [8217] @ asc ''s world'' @ [8212] @ asc ''such as budget cycles, strategic reviews or industry shifts. Show how acting now will provide a competitive advantage while procrastination leads to risk.''\<rparr>),
        (LAdvanced, \<lparr>
          msg_why = asc ''You clearly explain the triggers and urgency, combining emotional and logical elements. However, the narrative may still rely on common examples. Adding proprietary data or visionary insights could make the urgency more distinctive.'',
          msg_how = asc ''Provide specific statistics or case studies showing the benefits of acting promptly and the risks of waiting. Connect the urgency to broader industry shifts and illustrate your foresight in anticipating these changes. Make the argument for immediate action feel inevitable.''\<rparr>),
        (LLeading, \<lparr>
          msg_why = asc ''Your urgency narrative is compelling and credible. It integrates internal pressures and external market forces, backed by data and emotional resonance. The reader clearly understands the cost of inaction and the need to move quickly.'',
          msg_how = asc ''Keep your urgency story current by monitoring new market signals and buyer priorities. Update your narrative with fresh insights and align stakeholders around the timeline. Use your foresight to predict emerging trends and maintain urgency at the forefront of discussions.''\<rparr>)]),
     (asc ''Why your company'', map_of [
        (LNone, \<lparr>
          msg_why = asc ''You provide no explanation of why your company is uniquely qualified. Without differentiators or proof, there is nothing to evaluate. This dimension is left unanswered.'',
          msg_how = asc ''Identify two or three qualities that set your company apart, such as expertise, technology or methodology. Provide a proof point'' @ [8212] @ asc ''like a customer testimonial or performance statistic'' @ [8212] @ asc ''that validates each differentiator. This will begin to establish credibility.''\<rparr>),
        (LEmerging, \<lparr>
          msg_why = asc ''You mention a differentiator but fail to show how it connects to the buyer'' @ [8217] @ asc ''s problem. There is no evidence or context, making the claim feel generic. Your credibility remains unestablished.'',
          msg_how = asc ''Relate your differentiators to the buyer'' @ [8217] @ asc ''s pain. Explain why they matter and how they uniquely address the problem. Support your claims with proof, such as case studies, awards or metrics. Focus on the buyer'' @ [8217] @ asc ''s perspective rather than internal achievements.''\<rparr>),
        (LBasic, \<lparr>
          msg_why = asc ''You list differentiators and a proof point, but you don'' @ [8217] @ asc ''t explain why they matter to the buyer. The narrative feels like a checklist rather than a tailored argument. The buyer may still question your relevance.'',
          msg_how = asc ''Translate each differentiator into a buyer benefit. Describe how your track record with similar customers demonstrates your ability to solve their problem. Highlight your purpose or mission and why it aligns with the buyer'' @ [8217] @ asc ''s values or ambitions.''\<rparr>),
        (LAdvanced, \<lparr>
          msg_why = asc ''You explain why your company is the right partner with a balance of differentiators and evidence. However, the narrative could include more unique insights or emotional appeal to stand out from competitors.'',
          msg_how = asc ''Deepen your story by sharing your company'' @ [8217] @ asc ''s origin, mission and vision, and showing how they resonate with the buyer'' @ [8217] @ asc ''s ambitions. Introduce thought leadership or innovative practices that prove your commitment to solving the problem in a unique way.''\<rparr>),
        (LLeading, \<lparr>
          msg_why = asc ''You deliver a compelling and inspiring explanation of why your company is uniquely suited to help. Differentiators are clear, proof is strong and the story resonates emotionally. You establish trust and excitement.'',
          msg_how = asc ''Maintain your edge by continuously innovating and refining your differentiators. Gather new customer success stories and third'' @ [8209] @ asc ''party validation. Stay true to your mission and show how your culture and values empower the buyer'' @ [8217] @ asc ''s success.''\<rparr>)]),
     (asc ''Emotion'' @ [8211] @ asc ''Logic'', map_of [
        (LNone, \<lparr>
          msg_why = asc ''You provided no emotional hook or logical statement. Without a headline, there is no demonstration of your ability to lead with emotion and support with logic. This leaves us unable to assess this dimension.'',
          msg_how = asc ''Develop a concise headline that evokes an emotion (fear, ambition, relief) while hinting at the change you enable. Follow it with a logical benefit or fact. Keep it short, inspiring and aligned with your buyer'' @ [8217] @ asc ''s pain.''\<rparr>),
        (LEmerging, \<lparr>
          msg_why = asc ''Your headline is extremely brief or generic. It lacks emotional resonance and fails to connect to a logical benefit. As a result, it does not capture attention or convey your value proposition.'',
          msg_how = asc ''Rewrite the headline to focus on the buyer'' @ [8217] @ asc ''s emotions. Use vivid language that paints a picture of the desired change. Then add a logical element, such as a quantifiable outcome, to show the benefit of acting.''\<rparr>),
        (LBasic, \<lparr>
          msg_why = asc ''You produce a headline that hints at either emotion or logic, but not both. It shows some understanding of the need to hook and justify, yet the message feels unbalanced or uninspiring.'',
          msg_how = asc ''Balance your headline by combining an emotional driver with a logical payoff. For example, start with a phrase that stirs fear or ambition and end with a measurable result. Test different versions and refine based on feedback.''\<rparr>),
        (LAdvanced, \<lparr>
          msg_why = asc ''Your headline effectively blends emotion and logic, but it may rely on standard phrasing or lack unique flair. It is good but not yet memorable or distinctive.'',
          msg_how = asc ''Add a distinctive element such as a surprising statistic, a play on words, or a narrative twist that makes your headline stand out. Ensure it aligns with your brand and resonates with your specific buyer segment.''\<rparr>),
        (LLeading, \<lparr>
          msg_why = asc ''Your headline is exceptional. It is short, memorable and conveys both the emotional journey and the logical benefit. It instantly communicates the transformation you offer and inspires immediate attention.'',
          msg_how = asc ''Keep experimenting with creative expressions as your offerings evolve. Use A/B testing to optimise the phrasing for different contexts. Train your team to use this headline consistently and adapt it for various channels and audiences.''\<rparr>)]),
     (asc ''Buyer'' @ [8209] @ asc ''as'' @ [8209] @ asc ''hero'', map_of [
        (LNone, \<lparr>
          msg_why = asc ''You did not quantify any outcomes or articulate assumptions, leaving no story about the buyer'' @ [8217] @ asc ''s journey or success. Without numbers or context, the buyer'' @ [8217] @ asc ''s hero'' @ [8217] @ asc ''s journey is absent.'',
          msg_how = asc ''Quantify at least two outcomes your solution delivers'' @ [8212] @ asc ''such as time saved, revenue gained, or risks avoided. State the assumptions behind your numbers, like team size or baseline metrics. Frame your buyer as the hero whose success grows through these results.''\<rparr>),
        (LEmerging, \<lparr>
          msg_why = asc ''You mention outcomes but fail to provide numbers or tie them to the buyer'' @ [8217] @ asc ''s story. The benefits feel abstract and the buyer does not see themselves in the narrative.'',
          msg_how = asc ''Provide specific metrics that illustrate the impact of your solution. Explain how these improvements elevate the buyer'' @ [8217] @ asc ''s status, performance or well'' @ [8209] @ asc ''being. Use transparent assumptions and show the before'' @ [8209] @ asc ''and'' @ [8209] @ asc ''after transformation.''\<rparr>),
        (LBasic, \<lparr>
          msg_why = asc ''You share some metrics but they are generic or disconnected from the buyer'' @ [8217] @ asc ''s goals. The story does not clearly position the buyer as the hero achieving these results. It feels like a list of benefits rather than a personal journey.'',
          msg_how = asc ''Relate each metric to the buyer'' @ [8217] @ asc ''s objectives and responsibilities. Show how improved time, revenue or risk reduction makes the buyer more effective or respected. Provide context'' @ [8212] @ asc ''such as current benchmarks'' @ [8212] @ asc ''to demonstrate the significance of the gains.''\<rparr>),
        (LAdvanced, \<lparr>
          msg_why = asc ''You present credible metrics and assumptions and begin to tell a story. However, the narrative could be more inspiring and specific. It may rely on general statistics rather than an evocative hero journey.'',
          msg_how = asc ''Frame the buyer'' @ [8217] @ asc ''s journey as overcoming a challenge with your solution. Use case studies or anecdotes to illustrate real customers achieving these outcomes. Make sure the story highlights personal growth and professional impact.''\<rparr>),
        (LLeading, \<lparr>
          msg_why = asc ''You create a powerful, data'' @ [8209] @ asc ''driven story that clearly shows the buyer as the hero. The metrics are meaningful and the narrative inspires confidence and pride. This sets a high bar for storytelling.'',
          msg_how = asc ''Continue collecting success stories and updating your metrics. Tailor your narrative for different buyer personas so they can envision their own victory. Use multimedia assets like quotes or short videos to deepen the emotional connection.''\<rparr>)]),
     (asc ''Clarity'', map_of [
        (LNone, \<lparr>
          msg_why = asc ''You did not provide a one'' @ [8209] @ asc ''sentence value proposition or indicated you do not have one. Without a concise statement of who you serve, the problem and the benefit, we cannot assess clarity. This dimension is unaddressed.'',
          msg_how = asc ''Compose a clear, single sentence that names your buyer, states the problem you solve and describes the impact you deliver. Eliminate jargon and aim for simplicity. This sentence should be easy to remember and form the core of your messaging.''\<rparr>),
        (LEmerging, \<lparr>
          msg_why = asc ''Your value proposition is vague or incomplete. It may lack one or more of the essential elements: the buyer, the problem or the impact. It reads like a tagline and does not provide clarity.'',
          msg_how = asc ''Rewrite your sentence to explicitly mention the audience, the pain and the benefit in plain language. Avoid buzzwords. Provide context or numbers to make the proposition feel real. This will sharpen the clarity and focus of your message.''\<rparr>),
        (LBasic, \<lparr>
          msg_why = asc ''You provide a value proposition that covers the basics but it is generic and fails to highlight what makes you unique. The wording may be formulaic or reliant on common phrases.'',
          msg_how = asc ''Refine the sentence to emphasise your unique approach or differentiator. Use active voice and incorporate a hint of emotion. Ensure that it flows naturally and stands out from typical statements. Test it with customers to ensure it resonates.''\<rparr>),
        (LAdvanced, \<lparr>
          msg_why = asc ''You craft a concise and distinctive value proposition that clearly states the buyer, problem and impact. It is strong but could include a bit more specificity or creativity to be truly outstanding.'',
          msg_how = asc ''Add a unique detail like a metric, proprietary method or compelling adjective that makes your value proposition unforgettable. Align the tone with your brand personality and ensure it resonates across multiple buyer personas.''\<rparr>),
        (LLeading, \<lparr>
          msg_why = asc ''Your value proposition is succinct, unique and magnetic. It clearly communicates who you serve, what you solve and how you transform the buyer'' @ [8217] @ asc ''s world. It stands out and stays in the mind.'',
          msg_how = asc ''Continue to iterate as your offering evolves and your market changes. Use the one'' @ [8209] @ asc ''sentence value proposition as a north star for all messaging. Encourage team members to internalise and deliver it consistently.''\<rparr>)])]"

text \<open>
  The lookup of the loop body: \<open>messageTemplates[cat.name] || {}\<close>, then
  \<open>catMessages[level] || { why: '', how: '' }\<close>. An entry that is missing gives the
  pair of empty strings.
\<close>

definition selectMessage :: "(jsstring \<rightharpoonup> (level \<rightharpoonup> message)) \<Rightarrow> jsstring \<Rightarrow> level \<Rightarrow> message" where
  "selectMessage templates nm lv =
     (let catMessages = (case templates nm of None \<Rightarrow> Map.empty | Some m \<Rightarrow> m)
      in case catMessages lv of None \<Rightarrow> \<lparr>msg_why = [], msg_how = []\<rparr> | Some msg \<Rightarrow> msg)"

section \<open>The loop over the categories\<close>

record Dimension =
  name :: jsstring
  score :: nat
  level :: level
  why :: jsstring
  how :: jsstring

text \<open>
  \<open>categories.forEach\<close> with the state the body updates (\<open>totalScore\<close> and
  \<open>dims\<close>) passed along; an exception thrown by the body ends the loop.
\<close>

fun forEach :: "('a \<Rightarrow> 's \<Rightarrow> error + 's) \<Rightarrow> 'a list \<Rightarrow> 's \<Rightarrow> error + 's" where
  "forEach f [] st = Inr st"
| "forEach f (x # xs) st = (case f x st of Inl e \<Rightarrow> Inl e | Inr st' \<Rightarrow> forEach f xs st')"

text \<open>
  The part of the loop body below the first line: the result for the category \<open>cat\<close>
  whose trimmed answer is \<open>ans\<close>.
\<close>

definition dimensionFor :: "category \<Rightarrow> jsstring \<Rightarrow> Dimension" where
  "dimensionFor cat ans =
     (let (sc, lv) = scoreLevel ans;
          msg = selectMessage messageTemplates (cat_name cat) lv
      in \<lparr>name = cat_name cat, score = sc, level = lv, why = msg_why msg, how = msg_how msg\<rparr>)"

text \<open>
  The loop body: \<open>ans = (answers[cat.key] || '').trim()\<close>, then
  \<open>totalScore += score\<close> and \<open>dims.push(...)\<close>.
\<close>

definition categoryBody :: "(jsstring \<Rightarrow> jsval) \<Rightarrow> category \<Rightarrow> nat \<times> Dimension list \<Rightarrow> error + nat \<times> Dimension list" where
  "categoryBody answers cat st =
     (case call_trim (or_js (answers (cat_key cat)) (Str [])) of
        Inl e \<Rightarrow> Inl e
      | Inr ans \<Rightarrow>
          (let d = dimensionFor cat ans
           in Inr (fst st + score d, snd st @ [d])))"

section \<open>Average and band\<close>

text \<open>
  \<open>(totalScore / categories.length).toFixed(1)\<close>. \<open>toFixed(1)\<close> takes the integer
  \<open>n\<close> for which \<open>n / 10\<close> is nearest to the number, the larger one on a tie, and
  writes it with a point before its last digit. The model computes on the rational
  quotient: the double that JavaScript divides to lies within a rounding error of it, and
  ten times a quotient of an integer by six is never nearer than one sixth to a tie, so
  both round to the same \<open>n\<close>. Only numbers that are not negative are modelled.
\<close>

fun decimal :: "nat \<Rightarrow> jsstring" where
  "decimal n = (if n < 10 then [48 + n] else decimal (n div 10) @ [48 + n mod 10])"

definition roundTenths :: "rat \<Rightarrow> nat" where
  "roundTenths x = nat \<lfloor>x * 10 + 1 / 2\<rfloor>"

definition toFixed1 :: "rat \<Rightarrow> jsstring" where
  "toFixed1 x = (let n = roundTenths x in decimal (n div 10) @ [46] @ decimal (n mod 10))"

text \<open>
  \<open>parseFloat\<close> on an unsigned decimal numeral without exponent (what \<open>toFixed\<close>
  writes): the digits before and after the point are read; \<open>None\<close> is \<open>NaN\<close>.
\<close>

definition isDigit :: "nat \<Rightarrow> bool" where
  "isDigit c \<longleftrightarrow> 48 \<le> c \<and> c \<le> 57"

definition digitsValue :: "jsstring \<Rightarrow> nat" where
  "digitsValue ds = foldl (\<lambda>acc c. 10 * acc + (c - 48)) 0 ds"

definition parseFloat :: "jsstring \<Rightarrow> rat option" where
  "parseFloat s =
     (let ip = takeWhile isDigit s;
          rest = dropWhile isDigit s;
          fp = (case rest of [] \<Rightarrow> [] | c # fs \<Rightarrow> if c = 46 then takeWhile isDigit fs else [])
      in if ip = [] \<and> fp = [] then None
         else Some (of_nat (digitsValue ip) + of_nat (digitsValue fp) / 10 ^ length fp))"

text \<open>
  The band of \<open>avgNumeric\<close>. Every comparison with \<open>NaN\<close> is false, which would
  leave the last branch.
\<close>

definition bandOf :: "rat option \<Rightarrow> level" where
  "bandOf avgNumeric =
     (case avgNumeric of
        None \<Rightarrow> LLeading
      | Some x \<Rightarrow>
          if x < 2 then LNone
          else if x < 3 then LEmerging
          else if x < 4 then LBasic
          else if x < 5 then LAdvanced
          else LLeading)"

definition summaryMap :: "level \<rightharpoonup> jsstring" where
  "summaryMap = map_of
    [(LNone, asc ''Your assessment indicates there is currently no structured value proposition. Without a clear understanding of your buyer, urgency or differentiation, it will be difficult to craft a message that resonates. Start by articulating each of the Three'' @ [160] @ asc ''Whys in detail and gather proof points to build credibility. Identify who your ideal customer is, what pain they experience, why addressing that pain now matters, and why your approach uniquely solves it. Write down your narrative and refine it through customer conversations. Doing so will lay the foundation for a clear, compelling value proposition.''),
     (LEmerging, asc ''Your value proposition is still forming. You'' @ [8217] @ asc ''ve identified key elements but the answers lack sufficient context and proof. At this stage it'' @ [8217] @ asc ''s important to research your buyer'' @ [8217] @ asc ''s motivations and gather data to support your claims. Spend time interviewing customers, mapping their pain points, and quantifying the costs of inaction. Use those insights to enrich your messaging. Document differentiators and proof points like case studies or benchmarks. This groundwork will help you move from an emerging story to a convincing narrative.''),
     (LBasic, asc ''You have a foundational value proposition. You identify the buyer, their pain and why now, but there'' @ [8217] @ asc ''s room to add more specificity and differentiation. Strengthen your message by connecting emotional hooks to quantitative evidence and tailoring your story to the buyer'' @ [8217] @ asc ''s needs. Include specific examples of how your solution has addressed similar challenges, data that underscores urgency, and unique capabilities that competitors lack. The more you tie emotion to logic and show measurable outcomes, the more persuasive your message will become.''),
     (LAdvanced, asc ''Your value proposition is strong and well crafted. You balance emotional hooks with logical proof and clearly articulate why change is needed now and why you are the right partner. To elevate further, incorporate more unique proof points and refine your differentiation based on customer feedback. Continue refining your narrative by integrating fresh customer stories and industry trends, and make sure your messaging remains consistent across all channels and stakeholders. Frequent iteration ensures you maintain relevance and stay ahead of competitors.''),
     (LLeading, asc ''Congratulations! Your value proposition is industry leading. You demonstrate mastery of the Three'' @ [160] @ asc ''Whys, weave emotion and logic seamlessly, and provide compelling evidence. Continue to innovate and adapt your message as markets evolve to maintain leadership. Regularly benchmark against the best in class and solicit feedback from customers and partners to keep your narrative sharp. Share your insights internally to empower teams and externally to position yourself as a thought leader. This proactive approach will keep your value proposition ahead of the curve.'')]"

section \<open>Role coaching and next actions\<close>

definition coachingTextOf :: "jsstring \<Rightarrow> jsstring" where
  "coachingTextOf roleLower =
    ( if includes_str roleLower (asc ''ceo'') \<or> includes_str roleLower (asc ''chief executive'') then
       asc ''As a CEO your primary responsibility is to champion a unified value proposition across the organisation. Drive alignment between product, marketing and sales around a shared narrative and ensure resources support timely execution. Link the value story to strategic goals, emphasise organisational urgency and model the behaviour you expect from your teams in every interaction.''
     else if includes_str roleLower (asc ''cfo'') \<or> includes_str roleLower (asc ''chief financial'') then
       asc ''As a CFO focus on aligning investment with your value proposition. Use financial metrics to quantify the cost of inaction and the ROI of acting now. Collaborate with revenue and product leaders to ensure budgets support key initiatives and incorporate value calculators into planning. Demonstrate fiscal discipline while enabling growth.''
     else if includes_str roleLower (asc ''cro'') \<or> includes_str roleLower (asc ''chief revenue'') then
       asc ''As a Chief Revenue Officer, you must unify sales, marketing and customer success around a clear value narrative. Tie revenue goals to the Three'' @ [160] @ asc ''Whys, drive accountability for consistent messaging and coach teams to balance emotion with logic. Leverage pipeline data to show urgency and guide resource allocation.''
     else if includes_str roleLower (asc ''cso'') \<or> includes_str roleLower (asc ''chief strategy'') then
       asc ''As a Chief Strategy Officer, ensure your value proposition is embedded into strategic planning. Analyse market trends and competitive moves to anticipate why change and why now. Translate insights into actionable initiatives and communicate them clearly so the entire organisation understands its role in delivering on the strategy.''
     else if includes_str roleLower (asc ''cpo'') \<or> includes_str roleLower (asc ''chief product'') then
       asc ''As a Chief Product Officer you must translate product capabilities into business outcomes. Ensure your roadmap tells a cohesive story that reflects real buyer pains and ambitions. Partner with marketing and sales to validate that new features map to customer problems, using interviews and data to uncover emotional drivers and adjust priorities accordingly.''
     else if includes_str roleLower (asc ''cio'') \<or> includes_str roleLower (asc ''chief information'') then
       asc ''As a CIO your role is to enable the technology and data infrastructure that supports your value proposition. Provide analytics to quantify urgency and outcomes, and ensure systems capture customer feedback to refine messaging. Collaborate with product and revenue leaders to prioritise digital investments that reinforce the narrative.''
     else if includes_str roleLower (asc ''cto'') \<or> includes_str roleLower (asc ''chief technology'') then
       asc ''As a CTO focus on the technical innovation that differentiates your company. Communicate how your architecture and product roadmap uniquely address buyer pain points and enable rapid change. Work with product and marketing teams to translate complex features into business value and inspire confidence in your technical vision.''
     else if includes_str roleLower (asc ''chro'') \<or> includes_str roleLower (asc ''chief human'') then
       asc ''As a CHRO align your people strategy with the value proposition. Ensure recruitment, training and performance management emphasise the Three'' @ [160] @ asc ''Whys so employees can articulate the message. Foster a culture where teams collaborate across functions to deliver on the promise and recognise behaviours that reinforce the narrative.''
     else if includes_str roleLower (asc ''product'') then
       asc ''As a product leader you should translate product capabilities into business outcomes and ensure your roadmap tells a cohesive story. Partner closely with marketing and sales to validate that new features map to real customer problems. Use interviews and data to uncover emotional drivers and align messaging with market needs, then adapt plans accordingly.''
     else if includes_str roleLower (asc ''marketing'') then
       asc ''As a marketing leader focus on articulating a clear narrative that resonates with your buyer'' @ [8217] @ asc ''s fears and ambitions across all channels. Build campaigns around quantified proof and nurture leads through education on the Three'' @ [160] @ asc ''Whys. Align closely with sales and product so messaging and assets reinforce one another and refine them based on market feedback.''
     else if includes_str roleLower (asc ''sales'') \<or> includes_str roleLower (asc ''seller'') then
       asc ''As a sales leader ensure your team understands the Three'' @ [160] @ asc ''Whys and can articulate them in conversations of varying lengths. Coach reps to lead with emotion, back it with logic and tailor differentiation based on buyer persona. Regularly gather feedback from prospects and customers to refine your message and improve win rates.''
     else if includes_str roleLower (asc ''director'') then
       asc ''As a director you play a critical role in translating high'' @ [8209] @ asc ''level strategy into day'' @ [8209] @ asc ''to'' @ [8209] @ asc ''day execution. Ensure your team understands the value narrative and how their work supports it. Provide feedback from the front lines to refine messaging and coordinate cross'' @ [8209] @ asc ''functional initiatives that reinforce the Three'' @ [160] @ asc ''Whys.''
     else
       asc ''As a business leader align with cross'' @ [8209] @ asc ''functional teams to build a unified value story. Ensure your objectives support the broader go'' @ [8209] @ asc ''to'' @ [8209] @ asc ''market strategy and contribute feedback to improve the value proposition. Encourage collaboration and continuous learning to help the organisation advance its message.'')"

definition actionsMap :: "level \<rightharpoonup> jsstring list" where
  "actionsMap = map_of
    [(LNone,
       [asc ''Identify your target buyer personas and conduct research to understand their pain points.'',
        asc ''Determine key triggers that make addressing the problem urgent and document them.'',
        asc ''List differentiators and gather at least one proof point (testimonial, statistic) for each.'',
        asc ''Draft an emotional headline paired with a logical benefit and refine it through feedback.'',
        asc ''Write a concise one'' @ [8209] @ asc ''sentence value proposition stating buyer, pain and outcome.'']),
     (LEmerging,
       [asc ''Interview customers to validate emotional drivers, pain points and urgency triggers.'',
        asc ''Collect data to quantify the costs of inaction and refine your urgency narrative.'',
        asc ''Document unique differentiators and gather case studies to support each claim.'',
        asc ''Experiment with emotional headlines that blend feeling with facts; test internally.'',
        asc ''Build a simple value calculator outlining assumptions and expected benefits.'']),
     (LBasic,
       [asc ''Deepen research on buyer emotions and triggers using surveys and analytics.'',
        asc ''Strengthen differentiators by adding unique proof points or proprietary insights.'',
        asc ''Gather more specific metrics to quantify the outcomes you promise.'',
        asc ''Align messaging across product, marketing and sales teams for consistency.'',
        asc ''Expand your value calculator to model various buyer scenarios.'']),
     (LAdvanced,
       [asc ''Integrate new customer stories and industry trends to keep your narrative fresh.'',
        asc ''Add proprietary research or thought leadership to make your urgency story distinctive.'',
        asc ''Refine differentiators based on customer feedback and competitive analysis.'',
        asc ''Test advanced emotional hooks or storytelling techniques for your headline.'',
        asc ''Segment your value calculator by persona to tailor benefits more precisely.'']),
     (LLeading,
       [asc ''Continue innovating and evolving your message to stay ahead of market shifts.'',
        asc ''Regularly benchmark your value proposition against industry leaders for inspiration.'',
        asc ''Document and share insights internally and externally to reinforce thought leadership.'',
        asc ''Collect new success stories and update your metrics to maintain credibility.'',
        asc ''Train and coach your team to deliver your value proposition consistently across channels.''])]"

section \<open>The report\<close>

record Profile =
  profile_name :: jsval
  profile_role :: jsval
  profile_email :: jsval
  profile_organization :: jsval

record Coaching =
  headline :: jsstring
  headlineExplain :: jsstring
  urgency :: jsstring
  urgencyExplain :: jsstring
  differentiators :: jsstring
  differentiatorsExplain :: jsstring
  valueOutline :: jsstring
  valueOutlineExplain :: jsstring
  coachingText :: jsstring
  salesSparxText :: jsstring
  finalValue :: jsstring
  nextActions :: "jsstring list"

text \<open>
  \<open>executiveSummary\<close> is \<open>summaryMap[band]\<close>, which is \<open>undefined\<close> (\<open>None\<close>)
  for a band without an entry.
\<close>

record Report =
  profile :: Profile
  averageScore :: jsstring
  band :: level
  executiveSummary :: "jsstring option"
  dimensions :: "Dimension list"
  coaching :: Coaching

definition finalValuePlaceholder :: jsstring where
  "finalValuePlaceholder =
     asc ''Craft your value proposition here by clearly stating who you serve, the problem you solve, and the impact you deliver.''"

text \<open>
  \<open>actionsMap[band] || actionsMap['Basic']\<close>. The table has an entry for Basic; the
  empty list stands for the \<open>undefined\<close> that the expression would be without it.
\<close>

definition nextActionsOf :: "level \<Rightarrow> jsstring list" where
  "nextActionsOf b =
     (case actionsMap b of
        Some acts \<Rightarrow> acts
      | None \<Rightarrow> (case actionsMap LBasic of Some acts \<Rightarrow> acts | None \<Rightarrow> []))"

definition fallbackEvaluate :: "Profile \<Rightarrow> (jsstring \<Rightarrow> jsval) \<Rightarrow> error + Report" where
  "fallbackEvaluate prof answers =
     (case forEach (categoryBody answers) categories (0, []) of
        Inl e \<Rightarrow> Inl e
      | Inr (totalScore, dims) \<Rightarrow>
          (let avgScore = toFixed1 (of_nat totalScore / of_nat (length categories));
               avgNumeric = parseFloat avgScore;
               bnd = bandOf avgNumeric
           in case call_toLowerCase (or_js (profile_role prof) (Str [])) of
                Inl e \<Rightarrow> Inl e
              | Inr roleLower \<Rightarrow>
                  (case (if truthy (answers (asc ''q6'')) then call_trim (answers (asc ''q6''))
                         else Inr finalValuePlaceholder) of
                     Inl e \<Rightarrow> Inl e
                   | Inr fv \<Rightarrow>
                       Inr \<lparr>profile = prof,
                            averageScore = avgScore,
                            band = bnd,
                            executiveSummary = summaryMap bnd,
                            dimensions = dims,
                            coaching = \<lparr>
                              headline = asc ''Elevate your value proposition'',
                              headlineExplain = asc ''Craft a short, emotional hook that captures your buyer'' @ [8217] @ asc ''s attention and summarises the change you enable. Make it memorable and aspirational.'',
                              urgency = asc ''Clarify the stakes and link your roadmap to near'' @ [8209] @ asc ''term outcomes.'',
                              urgencyExplain = asc ''Explain why acting now matters. Link the buyer'' @ [8217] @ asc ''s pain to near'' @ [8209] @ asc ''term risks or opportunities and demonstrate the cost of delay.'',
                              differentiators = asc ''Highlight unique capabilities and proof points that set you apart.'',
                              differentiatorsExplain = asc ''List two to three unique capabilities and include at least one proof point, such as a case study or metric, to show how you stand out.'',
                              valueOutline = asc ''Define baseline metrics, lift assumptions and payback timeframe.'',
                              valueOutlineExplain = asc ''Break down the quantitative value: baseline metrics, expected lift and payback period. Use real data or reasonable assumptions for credibility.'',
                              coachingText = coachingTextOf roleLower,
                              salesSparxText = [],
                              finalValue = fv,
                              nextActions = nextActionsOf bnd\<rparr>\<rparr>)))"

section \<open>The method guard of the two request handlers\<close>

text \<open>
  Both handlers answer a request whose method is not \<open>POST\<close> at once and otherwise go
  on to read the body, call the external evaluator or the fallback scorer and write the
  result. Only the first step is modelled: the result is the response of the early
  return, or \<open>None\<close> when the handler goes on. \<open>headers\<close> are the headers the
  handler sets on the response.
\<close>

record Response =
  statusCode :: nat
  headers :: "(jsstring \<times> jsstring) list"
  body :: jsstring

text \<open>
  \<open>JSON.stringify({ error: msg })\<close> for a message without quotes, backslashes or control
  characters (34 is the double quote).
\<close>

definition stringifyError :: "jsstring \<Rightarrow> jsstring" where
  "stringifyError msg = asc ''{'' @ [34] @ asc ''error'' @ [34] @ asc '':'' @ [34] @ msg @ [34] @ asc ''}''"

text \<open>The Node handler (\<open>module.exports = async (req, res) => ...\<close>).\<close>

definition module_exports :: "jsstring \<Rightarrow> Response option" where
  "module_exports reqMethod =
     (if reqMethod \<noteq> asc ''POST'' then
        Some \<lparr>statusCode = 405,
              headers = [(asc ''Allow'', asc ''POST'')],
              body = stringifyError (asc ''Method not allowed'')\<rparr>
      else None)"

text \<open>The edge handler of \<open>api/evaluate.js\<close> (\<open>export default async function handler(req)\<close>).\<close>

definition handler :: "jsstring \<Rightarrow> Response option" where
  "handler reqMethod =
     (if reqMethod \<noteq> asc ''POST'' then
        Some \<lparr>statusCode = 405, headers = [], body = stringifyError (asc ''Use POST'')\<rparr>
      else None)"

section \<open>Notions used in the statements\<close>

text \<open>
  A value that is a string or falsy, and the string that \<open>v || ''\<close> then is. An input
  is well-formed for the scorer when the role of the profile and the answer under each of
  the six keys are such values.
\<close>

definition stringOrFalsy :: "jsval \<Rightarrow> bool" where
  "stringOrFalsy v = (case v of Str s \<Rightarrow> True | _ \<Rightarrow> \<not> truthy v)"

definition textOf :: "jsval \<Rightarrow> jsstring" where
  "textOf v = (case v of Str s \<Rightarrow> s | _ \<Rightarrow> [])"

definition inputOk :: "Profile \<Rightarrow> (jsstring \<Rightarrow> jsval) \<Rightarrow> bool" where
  "inputOk prof answers \<longleftrightarrow>
     stringOrFalsy (profile_role prof)
     \<and> list_all (\<lambda>c. stringOrFalsy (answers (cat_key c))) categories"

text \<open>
  An answer of \<open>n\<close> words: a word is a non-empty run without white space, a gap a
  non-empty run of white space, and \<open>joinWords w [(g1, w1), ..., (gk, wk)]\<close> is the
  text \<open>w g1 w1 ... gk wk\<close> of \<open>k + 1\<close> words.
\<close>

definition isWord :: "jsstring \<Rightarrow> bool" where
  "isWord w \<longleftrightarrow> w \<noteq> [] \<and> list_all (\<lambda>c. \<not> isWhiteSpace c) w"

definition isGap :: "jsstring \<Rightarrow> bool" where
  "isGap g \<longleftrightarrow> g \<noteq> [] \<and> list_all isWhiteSpace g"

fun joinWords :: "jsstring \<Rightarrow> (jsstring \<times> jsstring) list \<Rightarrow> jsstring" where
  "joinWords w [] = w"
| "joinWords w ((g, w') # rest) = w @ g @ joinWords w' rest"

text \<open>
  For the examples: a profile without fields, and an answers object with the one property
  \<open>k\<close> of value \<open>v\<close>.
\<close>

definition noProfile :: Profile where
  "noProfile = \<lparr>profile_name = Undefined, profile_role = Undefined,
                 profile_email = Undefined, profile_organization = Undefined\<rparr>"

definition answersWith :: "jsstring \<Rightarrow> jsval \<Rightarrow> jsstring \<Rightarrow> jsval" where
  "answersWith k v = (\<lambda>k'. if k' = k then v else Undefined)"




section \<open>Facts about the building blocks\<close>

lemma asc_Nil: "asc [] = []"
  by (simp add: asc_def)

lemma asc_Cons: "asc (c # cs) = of_char c # asc cs"
  by (simp add: asc_def)

lemma asc_eq_iff: "asc s = asc t \<longleftrightarrow> s = t"
  unfolding asc_def by (simp add: inj_map_eq_map inj_on_def)

lemma asc_eq_Nil: "(asc s = []) = (s = [])"
  by (simp add: asc_def)

text \<open>
  Comparing two texts that start with ASCII literals, one character at a time, without
  unfolding the rest.
\<close>

lemma asc_peel:
  "(asc (a # s) @ r = asc (b # t) @ r') = (a = b \<and> asc s @ r = asc t @ r')"
  "(asc (a # s) @ r = asc (b # t)) = (a = b \<and> asc s @ r = asc t)"
  "(asc (a # s) = asc (b # t) @ r') = (a = b \<and> asc s = asc t @ r')"
  by (simp_all add: asc_def)

lemma or_empty: "stringOrFalsy v \<Longrightarrow> or_js v (Str []) = Str (textOf v)"
  by (cases v) (simp_all add: or_js_def truthy_def textOf_def stringOrFalsy_def)

lemma read_answer: "stringOrFalsy v \<Longrightarrow> call_trim (or_js v (Str [])) = Inr (trim (textOf v))"
  by (simp add: or_empty call_trim_def)

lemma read_role:
  "stringOrFalsy v \<Longrightarrow> call_toLowerCase (or_js v (Str [])) = Inr (toLowerCase (textOf v))"
  by (simp add: or_empty call_toLowerCase_def)

lemma read_final:
  "stringOrFalsy v \<Longrightarrow>
   (if truthy v then call_trim v else Inr p) = Inr (if truthy v then trim (textOf v) else p)"
  by (cases v) (simp_all add: truthy_def call_trim_def textOf_def stringOrFalsy_def)

text \<open>A truthy value that is not a string survives \<open>|| ''\<close>, and the method call throws.\<close>

lemma read_answer_throws:
  "\<not> stringOrFalsy v \<Longrightarrow> call_trim (or_js v (Str [])) = Inl TypeError"
  by (cases v) (simp_all add: or_js_def truthy_def stringOrFalsy_def call_trim_def)

lemma read_role_throws:
  "\<not> stringOrFalsy v \<Longrightarrow> call_toLowerCase (or_js v (Str [])) = Inl TypeError"
  by (cases v) (simp_all add: or_js_def truthy_def stringOrFalsy_def call_toLowerCase_def)

lemma name_dimensionFor: "name (dimensionFor c a) = cat_name c"
  by (simp add: dimensionFor_def Let_def split: prod.split)

lemma score_dimensionFor: "score (dimensionFor c a) = fst (scoreLevel a)"
  by (simp add: dimensionFor_def Let_def split: prod.split)

lemma level_dimensionFor: "level (dimensionFor c a) = snd (scoreLevel a)"
  by (simp add: dimensionFor_def Let_def split: prod.split)

lemma why_dimensionFor:
  "why (dimensionFor c a) = msg_why (selectMessage messageTemplates (cat_name c) (snd (scoreLevel a)))"
  by (simp add: dimensionFor_def Let_def split: prod.split)

lemma how_dimensionFor:
  "how (dimensionFor c a) = msg_how (selectMessage messageTemplates (cat_name c) (snd (scoreLevel a)))"
  by (simp add: dimensionFor_def Let_def split: prod.split)

text \<open>
  On answers that are strings or falsy the loop does not throw: it adds one result per
  category, in order. On any other answer it throws.
\<close>

lemma forEach_categoryBody:
  "list_all (\<lambda>c. stringOrFalsy (answers (cat_key c))) cs \<Longrightarrow>
   forEach (categoryBody answers) cs (t, ds) =
     Inr (t + sum_list (map (\<lambda>c. score (dimensionFor c (trim (textOf (answers (cat_key c)))))) cs),
          ds @ map (\<lambda>c. dimensionFor c (trim (textOf (answers (cat_key c))))) cs)"
  by (induction cs arbitrary: t ds) (simp_all add: categoryBody_def read_answer Let_def)

lemma forEach_categoryBody_throws:
  "\<not> list_all (\<lambda>c. stringOrFalsy (answers (cat_key c))) cs \<Longrightarrow>
   forEach (categoryBody answers) cs st = Inl TypeError"
proof (induction cs arbitrary: st)
  case Nil
  then show ?case by simp
next
  case (Cons c cs)
  show ?case
  proof (cases "stringOrFalsy (answers (cat_key c))")
    case True
    with Cons.prems have "\<not> list_all (\<lambda>c. stringOrFalsy (answers (cat_key c))) cs" by simp
    from Cons.IH[OF this] True show ?thesis
      by (simp add: categoryBody_def read_answer Let_def)
  next
    case False
    then show ?thesis by (simp add: categoryBody_def read_answer_throws)
  qed
qed

lemma inputOk_q6: "inputOk prof answers \<Longrightarrow> stringOrFalsy (answers (asc ''q6''))"
  by (simp add: inputOk_def categories_def)

lemma fallbackEvaluate_eq:
  assumes "inputOk prof answers"
  shows "fallbackEvaluate prof answers =
     (let dims = map (\<lambda>c. dimensionFor c (trim (textOf (answers (cat_key c))))) categories;
          avgScore = toFixed1 (of_nat (sum_list (map score dims)) / of_nat (length categories));
          bnd = bandOf (parseFloat avgScore)
      in Inr \<lparr>profile = prof,
               averageScore = avgScore,
               band = bnd,
               executiveSummary = summaryMap bnd,
               dimensions = dims,
               coaching = \<lparr>
                 headline = asc ''Elevate your value proposition'',
                 headlineExplain = asc ''Craft a short, emotional hook that captures your buyer'' @ [8217] @ asc ''s attention and summarises the change you enable. Make it memorable and aspirational.'',
                 urgency = asc ''Clarify the stakes and link your roadmap to near'' @ [8209] @ asc ''term outcomes.'',
                 urgencyExplain = asc ''Explain why acting now matters. Link the buyer'' @ [8217] @ asc ''s pain to near'' @ [8209] @ asc ''term risks or opportunities and demonstrate the cost of delay.'',
                 differentiators = asc ''Highlight unique capabilities and proof points that set you apart.'',
                 differentiatorsExplain = asc ''List two to three unique capabilities and include at least one proof point, such as a case study or metric, to show how you stand out.'',
                 valueOutline = asc ''Define baseline metrics, lift assumptions and payback timeframe.'',
                 valueOutlineExplain = asc ''Break down the quantitative value: baseline metrics, expected lift and payback period. Use real data or reasonable assumptions for credibility.'',
                 coachingText = coachingTextOf (toLowerCase (textOf (profile_role prof))),
                 salesSparxText = [],
                 finalValue = (if truthy (answers (asc ''q6'')) then trim (textOf (answers (asc ''q6'')))
                               else finalValuePlaceholder),
                 nextActions = nextActionsOf bnd\<rparr>\<rparr>)"
proof -
  from assms have c: "list_all (\<lambda>c. stringOrFalsy (answers (cat_key c))) categories"
    and r: "stringOrFalsy (profile_role prof)"
    by (simp_all add: inputOk_def)
  show ?thesis
    unfolding fallbackEvaluate_def
    by (simp add: forEach_categoryBody[OF c] read_role[OF r] read_final[OF inputOk_q6[OF assms]]
        Let_def comp_def)
qed

text \<open>Every other input makes the scorer throw.\<close>

lemma fallbackEvaluate_throws:
  assumes "\<not> inputOk prof answers"
  shows "fallbackEvaluate prof answers = Inl TypeError"
proof (cases "list_all (\<lambda>c. stringOrFalsy (answers (cat_key c))) categories")
  case True
  with assms have "\<not> stringOrFalsy (profile_role prof)" by (simp add: inputOk_def)
  then show ?thesis
    unfolding fallbackEvaluate_def
    by (simp add: forEach_categoryBody[OF True] read_role_throws Let_def)
next
  case False
  then show ?thesis
    unfolding fallbackEvaluate_def by (simp add: forEach_categoryBody_throws)
qed

lemma fallbackEvaluate_Inr_iff:
  "(\<exists>r. fallbackEvaluate prof answers = Inr r) = inputOk prof answers"
proof (cases "inputOk prof answers")
  case True
  then show ?thesis by (simp add: fallbackEvaluate_eq Let_def)
next
  case False
  then show ?thesis by (simp add: fallbackEvaluate_throws)
qed

lemma length_categories: "length categories = 6"
  by (simp add: categories_def)

text \<open>The report, field by field: the scorer returns one for every well-formed input.\<close>

lemma fallbackEvaluate_fields:
  "inputOk prof answers \<Longrightarrow>
   \<exists>r. fallbackEvaluate prof answers = Inr r
     \<and> profile r = prof
     \<and> dimensions r = map (\<lambda>c. dimensionFor c (trim (textOf (answers (cat_key c))))) categories
     \<and> averageScore r = toFixed1 (of_nat (sum_list (map score (dimensions r))) / 6)
     \<and> band r = bandOf (parseFloat (averageScore r))
     \<and> executiveSummary r = summaryMap (band r)
     \<and> coachingText (coaching r) = coachingTextOf (toLowerCase (textOf (profile_role prof)))
     \<and> finalValue (coaching r) =
         (if truthy (answers (asc ''q6'')) then trim (textOf (answers (asc ''q6'')))
          else finalValuePlaceholder)
     \<and> nextActions (coaching r) = nextActionsOf (band r)
     \<and> salesSparxText (coaching r) = []
     \<and> headline (coaching r) \<noteq> [] \<and> headlineExplain (coaching r) \<noteq> []
     \<and> urgency (coaching r) \<noteq> [] \<and> urgencyExplain (coaching r) \<noteq> []
     \<and> differentiators (coaching r) \<noteq> [] \<and> differentiatorsExplain (coaching r) \<noteq> []
     \<and> valueOutline (coaching r) \<noteq> [] \<and> valueOutlineExplain (coaching r) \<noteq> []"
  by (simp add: fallbackEvaluate_eq Let_def length_categories asc_eq_Nil)

lemma textOf_Str_textOf: "textOf (Str (textOf v)) = textOf v"
  by (simp add: textOf_def)

lemma truthy_Str_textOf: "stringOrFalsy v \<Longrightarrow> truthy (Str (textOf v)) = truthy v"
  by (cases v) (simp_all add: truthy_def textOf_def stringOrFalsy_def)

text \<open>An absent or falsy answer and an empty answer give the same report.\<close>

lemma absent_answers_as_empty:
  assumes "inputOk prof answers"
  shows "fallbackEvaluate prof (\<lambda>k. Str (textOf (answers k))) = fallbackEvaluate prof answers"
proof -
  have ok: "inputOk prof (\<lambda>k. Str (textOf (answers k)))"
    using assms by (simp add: inputOk_def stringOrFalsy_def list_all_iff)
  show ?thesis
    by (simp add: fallbackEvaluate_eq[OF assms] fallbackEvaluate_eq[OF ok] textOf_Str_textOf
        truthy_Str_textOf[OF inputOk_q6[OF assms]])
qed

text \<open>
  An absent or falsy role and an empty role give the same report, but for the profile it
  echoes.
\<close>

lemma absent_role_as_empty:
  assumes "inputOk prof answers"
  shows "fallbackEvaluate (prof\<lparr>profile_role := Str (textOf (profile_role prof))\<rparr>) answers =
     map_sum id (\<lambda>r. r\<lparr>profile := prof\<lparr>profile_role := Str (textOf (profile_role prof))\<rparr>\<rparr>)
       (fallbackEvaluate prof answers)"
proof -
  have ok: "inputOk (prof\<lparr>profile_role := Str (textOf (profile_role prof))\<rparr>) answers"
    using assms by (simp add: inputOk_def stringOrFalsy_def)
  show ?thesis
    by (simp add: fallbackEvaluate_eq[OF assms] fallbackEvaluate_eq[OF ok] textOf_Str_textOf Let_def)
qed

text \<open>The examples are well-formed inputs.\<close>

lemma inputOk_examples:
  "inputOk noProfile (\<lambda>k. Undefined)"
  "inputOk noProfile (\<lambda>k. Str s)"
  "stringOrFalsy v \<Longrightarrow> inputOk noProfile (answersWith k v)"
  "inputOk noProfile (\<lambda>k'. if k' = k then Str s else Undefined)"
  by (simp_all add: inputOk_def noProfile_def answersWith_def stringOrFalsy_def truthy_def
      list_all_iff)

lemmas eval_defs = scoreLevel_def isUnknown_def normalised_def trim_def replaceNonAlnum_def
  toLowerCase_def lowerUnit_def isWhiteSpace_def isLowerOrDigit_def wordCount_def
  split_ws_def unknownPatterns_def asc_def textOf_def

section \<open>Facts about splitting and trimming\<close>

text \<open>Splitting a text of words and gaps gives back the words.\<close>

lemma splitRuns_word:
  "list_all (\<lambda>c. \<not> isWhiteSpace c) w \<Longrightarrow> splitRuns False cur (w @ s) = splitRuns False (rev w @ cur) s"
  by (induction w arbitrary: cur) simp_all

lemma splitRuns_start:
  "\<not> isWhiteSpace c \<Longrightarrow> splitRuns True [] (c # s) = splitRuns False [] (c # s)"
  by simp

lemma splitRuns_in_gap:
  "list_all isWhiteSpace g \<Longrightarrow> splitRuns True cur (g @ s) = splitRuns True cur s"
  by (induction g) simp_all

lemma splitRuns_gap:
  "isGap g \<Longrightarrow> splitRuns False cur (g @ s) = rev cur # splitRuns True [] s"
  by (cases g) (simp_all add: isGap_def splitRuns_in_gap)

lemma joinWords_ends:
  "isWord w \<Longrightarrow> list_all (\<lambda>(g, w'). isGap g \<and> isWord w') rest \<Longrightarrow>
   joinWords w rest \<noteq> [] \<and> \<not> isWhiteSpace (hd (joinWords w rest))
   \<and> \<not> isWhiteSpace (last (joinWords w rest))"
proof (induction rest arbitrary: w)
  case Nil
  then show ?case by (simp add: isWord_def list_all_iff)
next
  case (Cons p rest)
  obtain g w' where p: "p = (g, w')" by (cases p)
  from Cons.prems p have w': "isWord w'" and r: "list_all (\<lambda>(g, w'). isGap g \<and> isWord w') rest"
    by simp_all
  from Cons.IH[OF w' r] Cons.prems(1) show ?case
    by (cases w) (auto simp: p isWord_def)
qed

lemma split_joinWords:
  "isWord w \<Longrightarrow> list_all (\<lambda>(g, w'). isGap g \<and> isWord w') rest \<Longrightarrow>
   splitRuns False [] (joinWords w rest) = w # map snd rest"
proof (induction rest arbitrary: w)
  case Nil
  then show ?case using splitRuns_word[of w "[]" "[]"] by (simp add: isWord_def)
next
  case (Cons p rest)
  obtain g w' where p: "p = (g, w')" by (cases p)
  from Cons.prems p have g: "isGap g" and w': "isWord w'"
    and r: "list_all (\<lambda>(g, w'). isGap g \<and> isWord w') rest"
    by simp_all
  from joinWords_ends[OF w' r] obtain c t where ct: "joinWords w' rest = c # t" "\<not> isWhiteSpace c"
    by (cases "joinWords w' rest") auto
  have "splitRuns False [] (joinWords w (p # rest)) = splitRuns False (rev w) (g @ joinWords w' rest)"
    using Cons.prems(1) splitRuns_word[of w "[]"] by (simp add: p isWord_def)
  also have "\<dots> = w # splitRuns True [] (joinWords w' rest)"
    by (simp add: splitRuns_gap[OF g])
  also have "splitRuns True [] (joinWords w' rest) = splitRuns False [] (joinWords w' rest)"
    using ct by simp
  also have "\<dots> = w' # map snd rest" by (rule Cons.IH[OF w' r])
  finally show ?case by (simp add: p)
qed

lemma wordCount_joinWords:
  "isWord w \<Longrightarrow> list_all (\<lambda>(g, w'). isGap g \<and> isWord w') rest \<Longrightarrow>
   wordCount (joinWords w rest) = Suc (length rest)"
  using joinWords_ends[of w rest] by (simp add: wordCount_def split_ws_def split_joinWords)

lemma dropWhile_keeps: "xs \<noteq> [] \<Longrightarrow> \<not> P (hd xs) \<Longrightarrow> dropWhile P xs = xs"
  by (cases xs) simp_all

lemma trim_padded:
  assumes "list_all isWhiteSpace lead" "list_all isWhiteSpace trail"
    and "x \<noteq> []" "\<not> isWhiteSpace (hd x)" "\<not> isWhiteSpace (last x)"
  shows "trim (lead @ x @ trail) = x"
proof -
  have 1: "dropWhile isWhiteSpace (lead @ x @ trail) = x @ trail"
    using assms by (simp add: list_all_iff dropWhile_append3 dropWhile_keeps)
  have "dropWhile isWhiteSpace (rev x) = rev x"
    using assms(3,5) by (intro dropWhile_keeps) (simp_all add: hd_rev)
  moreover have "dropWhile isWhiteSpace (rev trail @ rev x) = dropWhile isWhiteSpace (rev x)"
    using assms(2) by (intro dropWhile_append2) (simp add: list_all_iff)
  ultimately have 2: "dropWhile isWhiteSpace (rev trail @ rev x) = rev x"
    by simp
  show ?thesis by (simp add: trim_def 1 2)
qed

section \<open>Facts about average and band\<close>

declare decimal.simps [simp del]

lemma decimal_digit: "n < 10 \<Longrightarrow> decimal n = [48 + n]"
  by (subst decimal.simps) simp

lemma decimal_digits: "list_all isDigit (decimal n)"
proof (induction n rule: decimal.induct)
  case (1 n)
  show ?case
  proof (cases "n < 10")
    case True
    then show ?thesis by (simp add: decimal_digit isDigit_def)
  next
    case False
    have "n mod 10 < 10" by simp
    then have "isDigit (48 + n mod 10)" unfolding isDigit_def by linarith
    with False 1 show ?thesis by (subst decimal.simps) simp
  qed
qed

lemma digitsValue_snoc: "digitsValue (ds @ [d]) = 10 * digitsValue ds + (d - 48)"
  by (simp add: digitsValue_def)

lemma digitsValue_decimal: "digitsValue (decimal n) = n"
proof (induction n rule: decimal.induct)
  case (1 n)
  show ?case
  proof (cases "n < 10")
    case True
    then show ?thesis by (simp add: decimal_digit digitsValue_def)
  next
    case False
    with 1 show ?thesis by (subst decimal.simps) (simp add: digitsValue_snoc)
  qed
qed

lemma takeWhile_stop:
  "list_all P xs \<Longrightarrow> \<not> P y \<Longrightarrow> takeWhile P (xs @ y # ys) = xs"
  by (induction xs) simp_all

lemma dropWhile_stop:
  "list_all P xs \<Longrightarrow> \<not> P y \<Longrightarrow> dropWhile P (xs @ y # ys) = y # ys"
  by (induction xs) simp_all

lemma decimal_nonempty: "decimal n \<noteq> []"
  by (subst decimal.simps) simp

lemma tenths_split: "(of_nat (n div 10) :: rat) + of_nat (n mod 10) / 10 = of_nat n / 10"
proof -
  have "n = 10 * (n div 10) + n mod 10" by simp
  then have "(of_nat n :: rat) = 10 * of_nat (n div 10) + of_nat (n mod 10)"
    by (metis of_nat_add of_nat_mult of_nat_numeral)
  then show ?thesis by (simp add: field_simps)
qed

lemma tenths_join: "(of_nat (n div 10) :: rat) * 10 + of_nat (n mod 10) = of_nat n"
proof -
  have "n = 10 * (n div 10) + n mod 10" by simp
  then have "(of_nat n :: rat) = 10 * of_nat (n div 10) + of_nat (n mod 10)"
    by (metis of_nat_add of_nat_mult of_nat_numeral)
  then show ?thesis by simp
qed

text \<open>Reading back what \<open>toFixed(1)\<close> wrote gives the rounded number of tenths.\<close>

lemma parseFloat_toFixed1: "parseFloat (toFixed1 x) = Some (of_nat (roundTenths x) / 10)"
proof -
  define n where "n = roundTenths x"
  have b: "decimal (n mod 10) = [48 + n mod 10]" by (simp add: decimal_digit)
  have nd: "\<not> isDigit 46" by (simp add: isDigit_def)
  have d: "isDigit (48 + n mod 10)"
  proof -
    have "n mod 10 < 10" by simp
    then show ?thesis unfolding isDigit_def by linarith
  qed
  have ip: "takeWhile isDigit (decimal (n div 10) @ 46 # [48 + n mod 10]) = decimal (n div 10)"
    by (rule takeWhile_stop[OF decimal_digits nd])
  have rest: "dropWhile isDigit (decimal (n div 10) @ 46 # [48 + n mod 10]) = 46 # [48 + n mod 10]"
    by (rule dropWhile_stop[OF decimal_digits nd])
  have dv: "digitsValue [48 + n mod 10] = n mod 10" by (simp add: digitsValue_def)
  have "parseFloat (decimal (n div 10) @ [46] @ decimal (n mod 10)) = Some (of_nat n / 10)"
    unfolding parseFloat_def b
    by (simp add: ip rest d decimal_nonempty digitsValue_decimal dv tenths_split tenths_join)
  then show ?thesis by (simp add: toFixed1_def n_def[symmetric] Let_def)
qed

lemma roundTenths_sixths: "roundTenths (of_nat k / 6) = (10 * k + 3) div 6"
proof -
  have "(of_nat k / 6 * 10 + 1 / 2 :: rat) = of_nat (10 * k + 3) / of_nat 6"
    by (simp add: field_simps)
  then have "\<lfloor>of_nat k / 6 * 10 + 1 / 2 :: rat\<rfloor> = int ((10 * k + 3) div 6)"
    by (simp only: floor_divide_of_nat_eq)
  then show ?thesis by (simp add: roundTenths_def)
qed

text \<open>
  The rounded tenths are the nearest ones, and no quotient by six is near a tie: the
  distance is at most one thirtieth, where a tie would be at one twentieth.
\<close>

lemma roundTenths_nearest:
  "\<bar>of_nat (roundTenths (of_nat k / 6)) / 10 - (of_nat k / 6 :: rat)\<bar> \<le> 1 / 30"
proof -
  define n where "n = (10 * k + 3) div 6"
  have h: "6 * n \<le> 10 * k + 2" "10 * k \<le> 6 * n + 2"
    unfolding n_def by presburger+
  have "rat_of_nat (6 * n) \<le> rat_of_nat (10 * k + 2)"
    using h(1) by (rule iffD2[OF of_nat_le_iff])
  then have a: "6 * rat_of_nat n \<le> 10 * rat_of_nat k + 2" by simp
  have "rat_of_nat (10 * k) \<le> rat_of_nat (6 * n + 2)"
    using h(2) by (rule iffD2[OF of_nat_le_iff])
  then have b: "10 * rat_of_nat k \<le> 6 * rat_of_nat n + 2" by simp
  from a b have "\<bar>rat_of_nat n / 10 - rat_of_nat k / 6\<bar> \<le> 1 / 30"
    by linarith
  then show ?thesis
    unfolding roundTenths_sixths n_def[symmetric] .
qed

lemma roundTenths_mono: "s \<le> t \<Longrightarrow> roundTenths (of_nat s / 6) \<le> roundTenths (of_nat t / 6)"
  unfolding roundTenths_sixths by (intro div_le_mono) simp

lemma bandOf_mono: "x \<le> y \<Longrightarrow> levelRank (bandOf (Some x)) \<le> levelRank (bandOf (Some y))"
  by (auto simp: bandOf_def)

lemma bandOf_tenths:
  "bandOf (Some (of_nat n / 10)) =
     (if n < 20 then LNone else if n < 30 then LEmerging else if n < 40 then LBasic
      else if n < 50 then LAdvanced else LLeading)"
proof -
  have "(of_nat n / 10 < (2 :: rat)) = (n < 20)" "(of_nat n / 10 < (3 :: rat)) = (n < 30)"
    "(of_nat n / 10 < (4 :: rat)) = (n < 40)" "(of_nat n / 10 < (5 :: rat)) = (n < 50)"
    by (simp_all add: pos_divide_less_eq)
  then show ?thesis
    by (simp only: bandOf_def option.case)
qed

lemma scoreLevel_range: "1 \<le> fst (scoreLevel a) \<and> fst (scoreLevel a) \<le> 5"
  by (simp add: scoreLevel_def)

lemma scoreLevel_scale: "fst (scoreLevel a) = Suc (levelRank (snd (scoreLevel a)))"
  by (simp add: scoreLevel_def)

lemma sum_list_bounds:
  "list_all (\<lambda>x. lo \<le> g x \<and> g x \<le> hi) xs \<Longrightarrow>
   lo * length xs \<le> sum_list (map g xs) \<and> sum_list (map g xs) \<le> hi * length (xs :: 'a list)"
  for lo hi :: nat
  by (induction xs) (auto simp: algebra_simps)

lemma total_range:
  "6 \<le> sum_list (map score (map (\<lambda>c. dimensionFor c (f c)) categories))
   \<and> sum_list (map score (map (\<lambda>c. dimensionFor c (f c)) categories)) \<le> 30"
proof -
  have "list_all (\<lambda>d. 1 \<le> score d \<and> score d \<le> 5) (map (\<lambda>c. dimensionFor c (f c)) categories)"
    by (simp add: list_all_iff score_dimensionFor scoreLevel_def)
  from sum_list_bounds[OF this] show ?thesis by (simp add: length_categories)
qed

lemma sum_list_constant:
  "list_all (\<lambda>d. g d = c) ds \<Longrightarrow> sum_list (map g ds) = c * length (ds :: 'a list)"
  for c :: nat
  by (induction ds) simp_all

lemma sum_list_mono2:
  "list_all2 (\<lambda>a b. g b < g a) xs ys \<Longrightarrow> sum_list (map g ys) \<le> sum_list (map g (xs :: 'a list))"
  for g :: "'a \<Rightarrow> nat"
  by (induction rule: list_all2_induct) simp_all

lemma band_of_total:
  assumes "fallbackEvaluate prof answers = Inr r"
  shows "band r = bandOf (Some (of_nat (roundTenths (of_nat (sum_list (map score (dimensions r))) / 6)) / 10))"
proof -
  from assms have "inputOk prof answers"
    using fallbackEvaluate_Inr_iff by blast
  from fallbackEvaluate_fields[OF this] assms
  have "averageScore r = toFixed1 (of_nat (sum_list (map score (dimensions r))) / 6)"
    and "band r = bandOf (parseFloat (averageScore r))"
    by auto
  then show ?thesis by (simp only: parseFloat_toFixed1)
qed

lemma report_average:
  assumes "fallbackEvaluate prof answers = Inr r"
  defines "t \<equiv> sum_list (map score (dimensions r))"
  defines "n \<equiv> roundTenths (of_nat t / 6)"
  shows "length (dimensions r) = 6"
    and "averageScore r = toFixed1 (of_nat t / 6)"
    and "averageScore r = [48 + n div 10, 46, 48 + n mod 10]"
    and "10 \<le> n" and "n \<le> 50"
    and "\<bar>of_nat n / 10 - (of_nat t / 6 :: rat)\<bar> \<le> 1 / 30"
    and "n = (10 * t + 3) div 6"
    and "band r = (if n < 20 then LNone else if n < 30 then LEmerging else if n < 40 then LBasic
      else if n < 50 then LAdvanced else LLeading)"
proof -
  from assms(1) have "inputOk prof answers"
    using fallbackEvaluate_Inr_iff by blast
  from fallbackEvaluate_fields[OF this] assms(1) have
    d: "dimensions r = map (\<lambda>c. dimensionFor c (trim (textOf (answers (cat_key c))))) categories"
    and a: "averageScore r = toFixed1 (of_nat (sum_list (map score (dimensions r))) / 6)"
    and b: "band r = bandOf (parseFloat (averageScore r))"
    by auto
  show len: "length (dimensions r) = 6" by (simp add: d length_categories)
  show "averageScore r = toFixed1 (of_nat t / 6)" by (simp add: a t_def)
  have t: "6 \<le> t" "t \<le> 30"
    using total_range[of "\<lambda>c. trim (textOf (answers (cat_key c)))"] unfolding t_def d by simp_all
  show n: "n = (10 * t + 3) div 6" by (simp add: n_def roundTenths_sixths)
  show nr: "10 \<le> n" "n \<le> 50" using t unfolding n by presburger+
  have "n div 10 < 10" using nr by simp
  then show "averageScore r = [48 + n div 10, 46, 48 + n mod 10]"
    by (simp add: a t_def[symmetric] toFixed1_def n_def[symmetric] decimal_digit)
  show "band r = (if n < 20 then LNone else if n < 30 then LEmerging else if n < 40 then LBasic
      else if n < 50 then LAdvanced else LLeading)"
    by (simp only: b a t_def[symmetric] parseFloat_toFixed1 n_def[symmetric] bandOf_tenths)
  show "\<bar>of_nat n / 10 - (of_nat t / 6 :: rat)\<bar> \<le> 1 / 30"
    unfolding n_def by (rule roundTenths_nearest)
qed

section \<open>Facts about the tables\<close>

lemma cat_names_distinct: "distinct (map cat_name categories)"
  by (simp add: categories_def asc_peel asc_eq_iff)

lemma cat_names_nonempty: "c \<in> set categories \<Longrightarrow> cat_name c \<noteq> []"
  by (auto simp: categories_def asc_eq_Nil)

text \<open>Two facts about lookups in a list of keys and values.\<close>

lemma map_of_covers:
  assumes "map fst L = ks" and "list_all (\<lambda>(k, v). Q v) L" and "k \<in> set ks"
  shows "\<exists>v. map_of L k = Some v \<and> Q v"
proof -
  from assms(1,3) have "k \<in> fst ` set L" by auto
  then obtain v where v: "map_of L k = Some v"
    by (metis map_of_eq_None_iff not_Some_eq)
  then have "(k, v) \<in> set L" by (rule map_of_SomeD)
  with assms(2) have "Q v" by (auto simp: list_all_iff)
  with v show ?thesis by blast
qed

lemma map_of_distinct_values:
  assumes "distinct (map (\<lambda>(k, v). g v) L)"
    and "map_of L k1 = Some v1" and "map_of L k2 = Some v2" and "k1 \<noteq> k2"
  shows "g v1 \<noteq> g v2"
proof
  assume e: "g v1 = g v2"
  from assms(2,3) have m: "(k1, v1) \<in> set L" "(k2, v2) \<in> set L"
    by (auto dest: map_of_SomeD)
  from assms(1) have "inj_on (\<lambda>(k, v). g v) (set L)" by (simp add: distinct_map)
  from inj_onD[OF this _ m] e have "(k1, v1) = (k2, v2)" by simp
  with assms(4) show False by simp
qed

text \<open>
  The narrative table, read once: its keys are the names of the categories, in order; every
  row has an entry with two non-empty texts for every level; and for every level the
  rationale texts of the rows differ.
\<close>

lemma templates_structure:
  "\<exists>L. messageTemplates = map_of L
     \<and> map fst L = map cat_name categories
     \<and> list_all (\<lambda>(k, cm). \<forall>lv. \<exists>m. cm lv = Some m \<and> msg_why m \<noteq> [] \<and> msg_how m \<noteq> []) L
     \<and> (\<forall>lv. distinct (map (\<lambda>(k, cm). map_option msg_why (cm lv)) L))"
  unfolding messageTemplates_def
  apply (rule exI, intro conjI)
     apply (rule refl)
    apply (simp add: categories_def)
   apply (simp only: list_all_Nil_iff list_all_Cons_iff prod.case simp_thms)
   apply (intro conjI allI; case_tac lv; simp add: asc_eq_Nil)
  apply (rule allI, case_tac lv; simp add: asc_peel asc_eq_iff)
  done

text \<open>Every category and level has an entry with two non-empty texts.\<close>

lemma templates_entry:
  assumes "c \<in> set categories"
  shows "\<exists>cm m. messageTemplates (cat_name c) = Some cm \<and> cm lv = Some m
     \<and> msg_why m \<noteq> [] \<and> msg_how m \<noteq> []"
proof -
  from templates_structure obtain L where
    L: "messageTemplates = map_of L" "map fst L = map cat_name categories"
    "list_all (\<lambda>(k, cm). \<forall>lv. \<exists>m. cm lv = Some m \<and> msg_why m \<noteq> [] \<and> msg_how m \<noteq> []) L"
    by blast
  from assms have "cat_name c \<in> set (map cat_name categories)" by simp
  from map_of_covers[OF L(2,3) this] show ?thesis unfolding L(1) by blast
qed

lemma selectMessage_entry:
  "c \<in> set categories \<Longrightarrow>
   msg_why (selectMessage messageTemplates (cat_name c) lv) \<noteq> []
   \<and> msg_how (selectMessage messageTemplates (cat_name c) lv) \<noteq> []"
  using templates_entry[of c lv] by (auto simp: selectMessage_def)

lemma why_distinct:
  assumes "c1 \<in> set categories" "c2 \<in> set categories" "cat_name c1 \<noteq> cat_name c2"
  shows "msg_why (selectMessage messageTemplates (cat_name c1) lv)
       \<noteq> msg_why (selectMessage messageTemplates (cat_name c2) lv)"
proof -
  from templates_structure obtain L where
    L: "messageTemplates = map_of L"
    and d: "\<And>lv. distinct (map (\<lambda>(k, cm). map_option msg_why (cm lv)) L)"
    by blast
  from templates_entry[OF assms(1), of lv] obtain cm1 m1 where
    1: "messageTemplates (cat_name c1) = Some cm1" "cm1 lv = Some m1" by blast
  from templates_entry[OF assms(2), of lv] obtain cm2 m2 where
    2: "messageTemplates (cat_name c2) = Some cm2" "cm2 lv = Some m2" by blast
  from map_of_distinct_values[of "\<lambda>cm. map_option msg_why (cm lv)" L, OF d 1(1)[unfolded L] 2(1)[unfolded L] assms(3)]
  have "msg_why m1 \<noteq> msg_why m2" by (simp add: 1 2)
  then show ?thesis by (simp add: selectMessage_def 1 2)
qed


lemma coachingTextOf_nonempty: "coachingTextOf s \<noteq> []"
  by (simp add: coachingTextOf_def asc_eq_Nil)

lemma summaryMap_total: "\<exists>s. summaryMap b = Some s \<and> s \<noteq> []"
  by (cases b) (simp_all add: summaryMap_def asc_eq_Nil)

lemma actionsMap_total:
  "\<exists>acts. actionsMap b = Some acts \<and> length acts = 5 \<and> list_all (\<lambda>a. a \<noteq> []) acts"
  by (cases b) (simp_all add: actionsMap_def asc_eq_Nil)

lemma nextActionsOf_keyed: "actionsMap b = Some (nextActionsOf b)"
  using actionsMap_total[of b] by (auto simp: nextActionsOf_def)






section \<open>Unknown answers (claim C1)\<close>

text \<open>
  An answer whose normalised form is empty, or is one of the listed phrases, gets score 1
  and level None, whatever its word count.
\<close>

lemma scoreLevel_unknown:
  "normalised ans = [] \<or> normalised ans \<in> set unknownPatterns \<Longrightarrow> scoreLevel ans = (1, LNone)"
  by (auto simp: scoreLevel_def isUnknown_def)

lemma scoreLevel_literal_phrases:
  "scoreLevel (asc ''n/a'') = (1, LNone)"
  "scoreLevel (asc ''unknown'') = (1, LNone)"
  "scoreLevel (asc ''none'') = (1, LNone)"
  "scoreLevel [] = (1, LNone)"
  by (simp_all add: eval_defs)

text \<open>
  Claim C1 (the code departs from it). The answer \<open>i don't know\<close>, a phrase of the
  list itself, is not classified as unknown: normalisation removes the apostrophe, and the
  list holds \<open>i don't know\<close> and \<open>dont know\<close> but not \<open>i dont know\<close>. With that
  answer to the first question and no other answer, the first dimension gets score 2 and
  level Emerging from the word count, the other five score 1 and level None.
\<close>

theorem C1_literal_i_dont_know_scored_by_word_count:
  "(case fallbackEvaluate
           \<lparr>profile_name = Undefined, profile_role = Undefined,
            profile_email = Undefined, profile_organization = Undefined\<rparr>
           (\<lambda>k. if k = asc ''q1'' then Str (asc ''i don't know'') else Undefined) of
      Inl e \<Rightarrow> []
    | Inr r \<Rightarrow> map (\<lambda>d. (score d, level d)) (dimensions r))
   = [(2, LEmerging), (1, LNone), (1, LNone), (1, LNone), (1, LNone), (1, LNone)]"
proof -
  let ?a = "\<lambda>k. if k = asc ''q1'' then Str (asc ''i don't know'') else Undefined"
  have ok: "inputOk noProfile ?a" by (rule inputOk_examples)
  from fallbackEvaluate_fields[OF ok] obtain r where
    r: "fallbackEvaluate noProfile ?a = Inr r"
    and d: "dimensions r = map (\<lambda>c. dimensionFor c (trim (textOf (?a (cat_key c))))) categories"
    by blast
  have "map (\<lambda>d. (score d, level d)) (dimensions r)
      = [(2, LEmerging), (1, LNone), (1, LNone), (1, LNone), (1, LNone), (1, LNone)]"
    unfolding d
    by (simp add: comp_def score_dimensionFor level_dimensionFor categories_def eval_defs)
  with r show ?thesis by (simp add: noProfile_def)
qed

section \<open>Word count and length bands (claim C2)\<close>

text \<open>
  Claim C2. Take any answer that consists of \<open>n\<close> words separated by runs of white space,
  with any white space around it, and that is not classified as unknown. Trimming removes
  the surrounding white space, the word count is \<open>n\<close>, and the score and level follow the
  bands: fewer than 15 words is Emerging (2), 15 to 39 is Basic (3), 40 to 79 is Advanced (4),
  80 or more is Leading (5). So 14 words give Emerging, 15 and 39 Basic, 40 and 79 Advanced,
  80 or more Leading: a boundary belongs to the higher band.
\<close>

theorem C2_word_count_bands:
  assumes "list_all isWhiteSpace lead" and "list_all isWhiteSpace trail"
    and "isWord w" and "list_all (\<lambda>(g, w'). isGap g \<and> isWord w') rest"
    and "\<not> isUnknown (joinWords w rest)"
  shows "call_trim (or_js (Str (lead @ joinWords w rest @ trail)) (Str [])) = Inr (joinWords w rest)
    \<and> wordCount (joinWords w rest) = Suc (length rest)
    \<and> scoreLevel (joinWords w rest) =
        (if Suc (length rest) < 15 then (2, LEmerging)
         else if Suc (length rest) < 40 then (3, LBasic)
         else if Suc (length rest) < 80 then (4, LAdvanced)
         else (5, LLeading))
    \<and> (Suc (length rest) = 14 \<longrightarrow> snd (scoreLevel (joinWords w rest)) = LEmerging)
    \<and> (Suc (length rest) = 15 \<longrightarrow> snd (scoreLevel (joinWords w rest)) = LBasic)
    \<and> (Suc (length rest) = 39 \<longrightarrow> snd (scoreLevel (joinWords w rest)) = LBasic)
    \<and> (Suc (length rest) = 40 \<longrightarrow> snd (scoreLevel (joinWords w rest)) = LAdvanced)
    \<and> (Suc (length rest) = 79 \<longrightarrow> snd (scoreLevel (joinWords w rest)) = LAdvanced)
    \<and> (80 \<le> Suc (length rest) \<longrightarrow> snd (scoreLevel (joinWords w rest)) = LLeading)"
proof -
  have e: "joinWords w rest \<noteq> []" "\<not> isWhiteSpace (hd (joinWords w rest))"
    "\<not> isWhiteSpace (last (joinWords w rest))"
    using joinWords_ends[OF assms(3,4)] by simp_all
  have t: "call_trim (or_js (Str (lead @ joinWords w rest @ trail)) (Str [])) = Inr (joinWords w rest)"
    using e by (simp add: read_answer stringOrFalsy_def textOf_def trim_padded[OF assms(1,2)])
  have n: "wordCount (joinWords w rest) = Suc (length rest)"
    by (rule wordCount_joinWords[OF assms(3,4)])
  have s: "scoreLevel (joinWords w rest) =
        (if Suc (length rest) < 15 then (2, LEmerging)
         else if Suc (length rest) < 40 then (3, LBasic)
         else if Suc (length rest) < 80 then (4, LAdvanced)
         else (5, LLeading))"
    using assms(5) by (simp add: scoreLevel_def n)
  show ?thesis
    unfolding s using t n by simp
qed

text \<open>The theorem at an answer of fifteen words, with a space before and after.\<close>

theorem C2_word_count_bands_witness:
  "isWord (asc ''w'')
   \<and> list_all (\<lambda>(g, w'). isGap g \<and> isWord w') (replicate 14 (asc '' '', asc ''w''))
   \<and> \<not> isUnknown (joinWords (asc ''w'') (replicate 14 (asc '' '', asc ''w'')))
   \<and> joinWords (asc ''w'') (replicate 14 (asc '' '', asc ''w''))
       = asc ''w w w w w w w w w w w w w w w''
   \<and> call_trim (or_js (Str (asc '' w w w w w w w w w w w w w w w '')) (Str []))
       = Inr (asc ''w w w w w w w w w w w w w w w'')
   \<and> scoreLevel (asc ''w w w w w w w w w w w w w w w'') = (3, LBasic)"
proof -
  have j: "joinWords (asc ''w'') (replicate 14 (asc '' '', asc ''w''))
       = asc ''w w w w w w w w w w w w w w w''"
    by (simp add: eval_nat_numeral asc_def)
  have h1: "list_all isWhiteSpace (asc '' '')" by (simp add: asc_def isWhiteSpace_def)
  have h3: "isWord (asc ''w'')" by (simp add: asc_def isWord_def isWhiteSpace_def)
  have h4: "list_all (\<lambda>(g, w'). isGap g \<and> isWord w') (replicate 14 (asc '' '', asc ''w''))"
    by (simp add: list_all_iff asc_def isWord_def isGap_def isWhiteSpace_def)
  have h5: "\<not> isUnknown (joinWords (asc ''w'') (replicate 14 (asc '' '', asc ''w'')))"
    unfolding j by (simp add: eval_defs)
  from C2_word_count_bands[OF h1 h1 h3 h4 h5] h3 h4 h5 j show ?thesis
    by (simp add: asc_def)
qed

section \<open>The average score (claim C3)\<close>

text \<open>
  Claim C3. For every input whose role and answers are strings or falsy (every input for
  which a report is produced) the scorer returns a report with six dimension results whose
  average score is \<open>toFixed(1)\<close> of the sum of the six scores divided by six: the string
  of one digit, a point and one digit that writes the number of tenths nearest to the mean
  (between 1.0 and 5.0, and within one thirtieth of the mean, so that no tie arises). Six
  scores of 1 give \<open>1.0\<close> and band None; six scores of 5 give \<open>5.0\<close> and band Leading.
\<close>

theorem C3_average_is_rounded_mean:
  "inputOk prof answers \<Longrightarrow>
   \<exists>r. fallbackEvaluate prof answers = Inr r
     \<and> length (dimensions r) = 6
     \<and> averageScore r = toFixed1 (of_nat (sum_list (map score (dimensions r))) / 6)
     \<and> (let t = sum_list (map score (dimensions r));
             n = roundTenths (of_nat t / 6)
         in averageScore r = [48 + n div 10, 46, 48 + n mod 10]
            \<and> 10 \<le> n \<and> n \<le> 50
            \<and> \<bar>of_nat n / 10 - (of_nat t / 6 :: rat)\<bar> \<le> 1 / 30)
     \<and> (list_all (\<lambda>d. score d = 1) (dimensions r) \<longrightarrow>
           averageScore r = asc ''1.0'' \<and> band r = LNone)
     \<and> (list_all (\<lambda>d. score d = 5) (dimensions r) \<longrightarrow>
           averageScore r = asc ''5.0'' \<and> band r = LLeading)"
proof -
  assume "inputOk prof answers"
  from fallbackEvaluate_fields[OF this] obtain r where
    r: "fallbackEvaluate prof answers = Inr r"
    by blast
  define t where "t = sum_list (map score (dimensions r))"
  define n where "n = roundTenths (of_nat t / 6)"
  note f = report_average[OF r, folded t_def, folded n_def]
  have one: "averageScore r = asc ''1.0'' \<and> band r = LNone" if "list_all (\<lambda>d. score d = 1) (dimensions r)"
  proof -
    from sum_list_constant[OF that] have "t = 6" by (simp add: t_def f(1))
    then have "n = 10" by (simp add: f(7))
    then show ?thesis by (simp add: f(3) f(8) asc_def)
  qed
  have five: "averageScore r = asc ''5.0'' \<and> band r = LLeading" if "list_all (\<lambda>d. score d = 5) (dimensions r)"
  proof -
    from sum_list_constant[OF that] have "t = 30" by (simp add: t_def f(1))
    then have "n = 50" by (simp add: f(7))
    then show ?thesis by (simp add: f(3) f(8) asc_def)
  qed
  show "\<exists>r. fallbackEvaluate prof answers = Inr r
     \<and> length (dimensions r) = 6
     \<and> averageScore r = toFixed1 (of_nat (sum_list (map score (dimensions r))) / 6)
     \<and> (let t = sum_list (map score (dimensions r));
             n = roundTenths (of_nat t / 6)
         in averageScore r = [48 + n div 10, 46, 48 + n mod 10]
            \<and> 10 \<le> n \<and> n \<le> 50
            \<and> \<bar>of_nat n / 10 - (of_nat t / 6 :: rat)\<bar> \<le> 1 / 30)
     \<and> (list_all (\<lambda>d. score d = 1) (dimensions r) \<longrightarrow>
           averageScore r = asc ''1.0'' \<and> band r = LNone)
     \<and> (list_all (\<lambda>d. score d = 5) (dimensions r) \<longrightarrow>
           averageScore r = asc ''5.0'' \<and> band r = LLeading)"
    using r f(1) f(2) f(3) f(4) f(5) f(6) one five
    by (intro exI[of _ r]) (simp add: Let_def t_def[symmetric] n_def[symmetric])
qed

text \<open>An answer of eighty words has score 5.\<close>

lemma eighty: "scoreLevel (trim (asc ''w w w w w w w w w w w w w w w w w w w w w w w w w w w w w w w w w w w w w w w w w w w w w w w w w w w w w w w w w w w w w w w w w w w w w w w w w w w w w w w w'')) = (5, LLeading)"
  by (simp add: eval_defs)

text \<open>The theorem at six absent answers and at six answers of eighty words.\<close>

theorem C3_average_is_rounded_mean_witness:
  "inputOk noProfile (\<lambda>k. Undefined)
   \<and> inputOk noProfile (\<lambda>k. Str (asc ''w w w w w w w w w w w w w w w w w w w w w w w w w w w w w w w w w w w w w w w w w w w w w w w w w w w w w w w w w w w w w w w w w w w w w w w w w w w w w w w w''))
   \<and> (\<exists>r. fallbackEvaluate noProfile (\<lambda>k. Undefined) = Inr r
      \<and> list_all (\<lambda>d. score d = 1) (dimensions r)
      \<and> averageScore r = asc ''1.0'' \<and> band r = LNone)
   \<and> (\<exists>r. fallbackEvaluate noProfile (\<lambda>k. Str (asc ''w w w w w w w w w w w w w w w w w w w w w w w w w w w w w w w w w w w w w w w w w w w w w w w w w w w w w w w w w w w w w w w w w w w w w w w w w w w w w w w w'')) = Inr r
      \<and> list_all (\<lambda>d. score d = 5) (dimensions r)
      \<and> averageScore r = asc ''5.0'' \<and> band r = LLeading)"
proof -
  let ?a = "\<lambda>k::jsstring. Undefined"
  let ?b = "\<lambda>k::jsstring. Str (asc ''w w w w w w w w w w w w w w w w w w w w w w w w w w w w w w w w w w w w w w w w w w w w w w w w w w w w w w w w w w w w w w w w w w w w w w w w w w w w w w w w'')"
  have oa: "inputOk noProfile ?a" and ob: "inputOk noProfile ?b"
    by (rule inputOk_examples)+
  from C3_average_is_rounded_mean[OF oa] obtain r where
    r: "fallbackEvaluate noProfile ?a = Inr r"
    and one: "list_all (\<lambda>d. score d = 1) (dimensions r) \<longrightarrow> averageScore r = asc ''1.0'' \<and> band r = LNone"
    by blast
  from fallbackEvaluate_fields[OF oa] r
  have d: "dimensions r = map (\<lambda>c. dimensionFor c (trim (textOf (?a (cat_key c))))) categories"
    by auto
  have l1: "list_all (\<lambda>d. score d = 1) (dimensions r)"
    unfolding d by (simp add: list_all_iff score_dimensionFor eval_defs)
  from C3_average_is_rounded_mean[OF ob] obtain q where
    q: "fallbackEvaluate noProfile ?b = Inr q"
    and five: "list_all (\<lambda>d. score d = 5) (dimensions q) \<longrightarrow> averageScore q = asc ''5.0'' \<and> band q = LLeading"
    by blast
  from fallbackEvaluate_fields[OF ob] q
  have e: "dimensions q = map (\<lambda>c. dimensionFor c (trim (textOf (?b (cat_key c))))) categories"
    by auto
  have l5: "list_all (\<lambda>d. score d = 5) (dimensions q)"
    unfolding e by (simp add: list_all_iff score_dimensionFor textOf_def eighty)
  from oa ob r one l1 q five l5 show ?thesis by blast
qed

section \<open>The band (claim C4)\<close>

text \<open>
  Claim C4. The band is a non-decreasing function of the average; the five bands are the
  intervals below 2, from 2 to below 3, from 3 to below 4, from 4 to below 5, and from 5 on,
  so every average lies in exactly one; the band of a report is the band of its rounded
  average; and of two reports, the one whose six scores are each strictly greater never has
  the lower band. Reports are produced for the inputs whose role and answers are strings or
  falsy.
\<close>

theorem C4_band_monotone:
  "(\<forall>x y. x \<le> y \<longrightarrow> levelRank (bandOf (Some x)) \<le> levelRank (bandOf (Some y)))
   \<and> (\<forall>x. (bandOf (Some x) = LNone) = (x < 2)
          \<and> (bandOf (Some x) = LEmerging) = (2 \<le> x \<and> x < 3)
          \<and> (bandOf (Some x) = LBasic) = (3 \<le> x \<and> x < 4)
          \<and> (bandOf (Some x) = LAdvanced) = (4 \<le> x \<and> x < 5)
          \<and> (bandOf (Some x) = LLeading) = (5 \<le> x))
   \<and> (\<forall>prof answers. inputOk prof answers \<longrightarrow>
          (\<exists>r. fallbackEvaluate prof answers = Inr r
            \<and> band r = bandOf (Some (of_nat (roundTenths
                  (of_nat (sum_list (map score (dimensions r))) / 6)) / 10))))
   \<and> (\<forall>prof1 answers1 prof2 answers2.
          inputOk prof1 answers1 \<and> inputOk prof2 answers2 \<longrightarrow>
          (\<exists>r1 r2.
            fallbackEvaluate prof1 answers1 = Inr r1 \<and> fallbackEvaluate prof2 answers2 = Inr r2
            \<and> (list_all2 (\<lambda>d1 d2. score d2 < score d1) (dimensions r1) (dimensions r2)
                 \<longrightarrow> levelRank (band r2) \<le> levelRank (band r1))))"
proof (intro conjI allI impI)
  fix x y :: rat
  assume "x \<le> y"
  then show "levelRank (bandOf (Some x)) \<le> levelRank (bandOf (Some y))" by (rule bandOf_mono)
next
  fix x :: rat
  show "(bandOf (Some x) = LNone) = (x < 2)" by (simp add: bandOf_def)
  show "(bandOf (Some x) = LEmerging) = (2 \<le> x \<and> x < 3)" by (auto simp: bandOf_def)
  show "(bandOf (Some x) = LBasic) = (3 \<le> x \<and> x < 4)" by (auto simp: bandOf_def)
  show "(bandOf (Some x) = LAdvanced) = (4 \<le> x \<and> x < 5)" by (auto simp: bandOf_def)
  show "(bandOf (Some x) = LLeading) = (5 \<le> x)" by (auto simp: bandOf_def)
next
  fix prof answers
  assume "inputOk prof answers"
  from fallbackEvaluate_fields[OF this] obtain r where "fallbackEvaluate prof answers = Inr r"
    by blast
  with band_of_total[OF this]
  show "\<exists>r. fallbackEvaluate prof answers = Inr r
          \<and> band r = bandOf (Some (of_nat (roundTenths
                (of_nat (sum_list (map score (dimensions r))) / 6)) / 10))"
    by blast
next
  fix prof1 answers1 prof2 answers2
  assume ok: "inputOk prof1 answers1 \<and> inputOk prof2 answers2"
  from fallbackEvaluate_fields[of prof1 answers1] ok
  obtain r1 where r1: "fallbackEvaluate prof1 answers1 = Inr r1"
    by blast
  from fallbackEvaluate_fields[of prof2 answers2] ok
  obtain r2 where r2: "fallbackEvaluate prof2 answers2 = Inr r2"
    by blast
  have "levelRank (band r2) \<le> levelRank (band r1)"
    if "list_all2 (\<lambda>d1 d2. score d2 < score d1) (dimensions r1) (dimensions r2)"
  proof -
    from sum_list_mono2[OF that]
    have "roundTenths (of_nat (sum_list (map score (dimensions r2))) / 6)
        \<le> roundTenths (of_nat (sum_list (map score (dimensions r1))) / 6)"
      by (rule roundTenths_mono)
    then have "(of_nat (roundTenths (of_nat (sum_list (map score (dimensions r2))) / 6)) / 10 :: rat)
        \<le> of_nat (roundTenths (of_nat (sum_list (map score (dimensions r1))) / 6)) / 10"
      by (simp add: divide_right_mono)
    then show ?thesis
      unfolding band_of_total[OF r1] band_of_total[OF r2] by (rule bandOf_mono)
  qed
  with r1 r2 show "\<exists>r1 r2.
          fallbackEvaluate prof1 answers1 = Inr r1 \<and> fallbackEvaluate prof2 answers2 = Inr r2
          \<and> (list_all2 (\<lambda>d1 d2. score d2 < score d1) (dimensions r1) (dimensions r2)
               \<longrightarrow> levelRank (band r2) \<le> levelRank (band r1))"
    by blast
qed

text \<open>
  The theorem at the averages 1.5 and 3.2, and at the reports for six one-word answers and
  for six absent answers.
\<close>

theorem C4_band_monotone_witness:
  "(3 / 2 :: rat) \<le> 16 / 5
   \<and> levelRank (bandOf (Some (3 / 2))) \<le> levelRank (bandOf (Some (16 / 5)))
   \<and> inputOk noProfile (\<lambda>k. Str (asc ''buyers''))
   \<and> inputOk noProfile (\<lambda>k. Undefined)
   \<and> (\<exists>r1 r2. fallbackEvaluate noProfile (\<lambda>k. Str (asc ''buyers'')) = Inr r1
        \<and> fallbackEvaluate noProfile (\<lambda>k. Undefined) = Inr r2
        \<and> list_all2 (\<lambda>d1 d2. score d2 < score d1) (dimensions r1) (dimensions r2)
        \<and> levelRank (band r2) \<le> levelRank (band r1))"
proof -
  let ?a = "\<lambda>k::jsstring. Str (asc ''buyers'')"
  let ?b = "\<lambda>k::jsstring. Undefined"
  from C4_band_monotone have m: "\<And>x y. x \<le> y \<Longrightarrow> levelRank (bandOf (Some x)) \<le> levelRank (bandOf (Some y))"
    and p: "\<And>prof1 answers1 prof2 answers2.
          inputOk prof1 answers1 \<and> inputOk prof2 answers2 \<Longrightarrow> \<exists>r1 r2.
          fallbackEvaluate prof1 answers1 = Inr r1 \<and> fallbackEvaluate prof2 answers2 = Inr r2
          \<and> (list_all2 (\<lambda>d1 d2. score d2 < score d1) (dimensions r1) (dimensions r2)
               \<longrightarrow> levelRank (band r2) \<le> levelRank (band r1))"
    by blast+
  have h: "(3 / 2 :: rat) \<le> 16 / 5" by simp
  have oa: "inputOk noProfile ?a" and ob: "inputOk noProfile ?b"
    by (rule inputOk_examples)+
  from p[of noProfile ?a noProfile ?b] oa ob obtain r1 r2 where
    r1: "fallbackEvaluate noProfile ?a = Inr r1" and r2: "fallbackEvaluate noProfile ?b = Inr r2"
    and i: "list_all2 (\<lambda>d1 d2. score d2 < score d1) (dimensions r1) (dimensions r2)
               \<longrightarrow> levelRank (band r2) \<le> levelRank (band r1)"
    by blast
  from fallbackEvaluate_fields[OF oa] r1
  have d1: "dimensions r1 = map (\<lambda>c. dimensionFor c (trim (textOf (?a (cat_key c))))) categories"
    by auto
  from fallbackEvaluate_fields[OF ob] r2
  have d2: "dimensions r2 = map (\<lambda>c. dimensionFor c (trim (textOf (?b (cat_key c))))) categories"
    by auto
  have l: "list_all2 (\<lambda>d1 d2. score d2 < score d1) (dimensions r1) (dimensions r2)"
    unfolding d1 d2 by (simp add: categories_def score_dimensionFor eval_defs)
  from h m[OF h] oa ob r1 r2 l i show ?thesis by blast
qed

section \<open>The six dimension results (claim C5)\<close>

text \<open>
  Claim C5. For every input whose role and answers are strings or falsy (every input for
  which a report is produced) the scorer returns a report with exactly six dimension results,
  named Why change, Why now, Why your company, Emotion-Logic, Buyer-as-hero and Clarity in
  this order (the code writes the fourth name with an en dash and the fifth with
  non-breaking hyphens); the score and level of the i-th result are those of the trimmed
  answer under the key \<open>qi\<close>, and its two texts are the narrative selected for its name
  and level.
\<close>

theorem C5_six_dimensions_in_order:
  "inputOk prof answers \<Longrightarrow>
   \<exists>r. fallbackEvaluate prof answers = Inr r
     \<and> length (dimensions r) = 6
     \<and> map name (dimensions r) =
         [asc ''Why change'', asc ''Why now'', asc ''Why your company'',
          asc ''Emotion'' @ [8211] @ asc ''Logic'',
          asc ''Buyer'' @ [8209] @ asc ''as'' @ [8209] @ asc ''hero'',
          asc ''Clarity'']
     \<and> map (\<lambda>d. (score d, level d)) (dimensions r) =
         map (\<lambda>k. scoreLevel (trim (textOf (answers k))))
           [asc ''q1'', asc ''q2'', asc ''q3'', asc ''q4'', asc ''q5'', asc ''q6'']
     \<and> map (\<lambda>d. (why d, how d)) (dimensions r) =
         map (\<lambda>d. (msg_why (selectMessage messageTemplates (name d) (level d)),
                    msg_how (selectMessage messageTemplates (name d) (level d)))) (dimensions r)"
proof -
  assume "inputOk prof answers"
  from fallbackEvaluate_fields[OF this] obtain r where
    r: "fallbackEvaluate prof answers = Inr r"
    and d: "dimensions r = map (\<lambda>c. dimensionFor c (trim (textOf (answers (cat_key c))))) categories"
    by blast
  have 1: "length (dimensions r) = 6" by (simp add: d length_categories)
  have 2: "map name (dimensions r) =
         [asc ''Why change'', asc ''Why now'', asc ''Why your company'',
          asc ''Emotion'' @ [8211] @ asc ''Logic'',
          asc ''Buyer'' @ [8209] @ asc ''as'' @ [8209] @ asc ''hero'',
          asc ''Clarity'']"
    by (simp add: d categories_def name_dimensionFor)
  have 3: "map (\<lambda>d. (score d, level d)) (dimensions r) =
         map (\<lambda>k. scoreLevel (trim (textOf (answers k))))
           [asc ''q1'', asc ''q2'', asc ''q3'', asc ''q4'', asc ''q5'', asc ''q6'']"
    by (simp add: d categories_def score_dimensionFor level_dimensionFor)
  have 4: "map (\<lambda>d. (why d, how d)) (dimensions r) =
         map (\<lambda>d. (msg_why (selectMessage messageTemplates (name d) (level d)),
                    msg_how (selectMessage messageTemplates (name d) (level d)))) (dimensions r)"
    by (simp add: d why_dimensionFor how_dimensionFor name_dimensionFor level_dimensionFor)
  show "\<exists>r. fallbackEvaluate prof answers = Inr r
     \<and> length (dimensions r) = 6
     \<and> map name (dimensions r) =
         [asc ''Why change'', asc ''Why now'', asc ''Why your company'',
          asc ''Emotion'' @ [8211] @ asc ''Logic'',
          asc ''Buyer'' @ [8209] @ asc ''as'' @ [8209] @ asc ''hero'',
          asc ''Clarity'']
     \<and> map (\<lambda>d. (score d, level d)) (dimensions r) =
         map (\<lambda>k. scoreLevel (trim (textOf (answers k))))
           [asc ''q1'', asc ''q2'', asc ''q3'', asc ''q4'', asc ''q5'', asc ''q6'']
     \<and> map (\<lambda>d. (why d, how d)) (dimensions r) =
         map (\<lambda>d. (msg_why (selectMessage messageTemplates (name d) (level d)),
                    msg_how (selectMessage messageTemplates (name d) (level d)))) (dimensions r)"
    by (intro exI[of _ r] conjI r 1 2 3 4)
qed

text \<open>
  The theorem at the input whose only answer is the one word \<open>buyers\<close> to the third
  question: the third result alone is scored from it.
\<close>

theorem C5_six_dimensions_in_order_witness:
  "inputOk noProfile (answersWith (asc ''q3'') (Str (asc ''buyers'')))
   \<and> (\<exists>r. fallbackEvaluate noProfile (answersWith (asc ''q3'') (Str (asc ''buyers''))) = Inr r
        \<and> length (dimensions r) = 6
        \<and> map name (dimensions r) =
            [asc ''Why change'', asc ''Why now'', asc ''Why your company'',
             asc ''Emotion'' @ [8211] @ asc ''Logic'',
             asc ''Buyer'' @ [8209] @ asc ''as'' @ [8209] @ asc ''hero'',
             asc ''Clarity'']
        \<and> map (\<lambda>d. (score d, level d)) (dimensions r) =
            [(1, LNone), (1, LNone), (2, LEmerging), (1, LNone), (1, LNone), (1, LNone)])"
proof -
  let ?a = "answersWith (asc ''q3'') (Str (asc ''buyers''))"
  have ok: "inputOk noProfile ?a"
    by (rule inputOk_examples) (simp add: stringOrFalsy_def)
  have e: "map (\<lambda>k. scoreLevel (trim (textOf (?a k))))
           [asc ''q1'', asc ''q2'', asc ''q3'', asc ''q4'', asc ''q5'', asc ''q6'']
        = [(1, LNone), (1, LNone), (2, LEmerging), (1, LNone), (1, LNone), (1, LNone)]"
    by (simp add: answersWith_def eval_defs)
  from C5_six_dimensions_in_order[OF ok] obtain r where
    R: "fallbackEvaluate noProfile ?a = Inr r
     \<and> length (dimensions r) = 6
     \<and> map name (dimensions r) =
         [asc ''Why change'', asc ''Why now'', asc ''Why your company'',
          asc ''Emotion'' @ [8211] @ asc ''Logic'',
          asc ''Buyer'' @ [8209] @ asc ''as'' @ [8209] @ asc ''hero'',
          asc ''Clarity'']
     \<and> map (\<lambda>d. (score d, level d)) (dimensions r) =
         map (\<lambda>k. scoreLevel (trim (textOf (?a k))))
           [asc ''q1'', asc ''q2'', asc ''q3'', asc ''q4'', asc ''q5'', asc ''q6'']
     \<and> map (\<lambda>d. (why d, how d)) (dimensions r) =
         map (\<lambda>d. (msg_why (selectMessage messageTemplates (name d) (level d)),
                    msg_how (selectMessage messageTemplates (name d) (level d)))) (dimensions r)" ..
  note r1 = R[THEN conjunct1]
  note r2 = R[THEN conjunct2, THEN conjunct1]
  note r3 = R[THEN conjunct2, THEN conjunct2, THEN conjunct1]
  note r4 = R[THEN conjunct2, THEN conjunct2, THEN conjunct2, THEN conjunct1, unfolded e]
  show ?thesis by (intro conjI exI[of _ r] ok r1 r2 r3 r4)
qed

section \<open>The narrative lookup (claim C6)\<close>

text \<open>
  Claim C6. Every one of the six categories has, for every one of the five levels, an entry
  in the narrative table, and the lookup returns it: a pair of non-empty texts. For one
  level, two different categories never have the same rationale text. A lookup whose
  category or level has no entry returns the pair of empty strings.
\<close>

theorem C6_narrative_total:
  "(\<forall>c\<in>set categories. \<forall>lv. \<exists>cm m.
       messageTemplates (cat_name c) = Some cm \<and> cm lv = Some m
       \<and> selectMessage messageTemplates (cat_name c) lv = m
       \<and> msg_why m \<noteq> [] \<and> msg_how m \<noteq> [])
   \<and> (\<forall>c1\<in>set categories. \<forall>c2\<in>set categories. \<forall>lv. c1 \<noteq> c2 \<longrightarrow>
         msg_why (selectMessage messageTemplates (cat_name c1) lv)
           \<noteq> msg_why (selectMessage messageTemplates (cat_name c2) lv))
   \<and> (\<forall>templates nm lv.
         templates nm = None \<or> (\<exists>cm. templates nm = Some cm \<and> cm lv = None) \<longrightarrow>
         selectMessage templates nm lv = \<lparr>msg_why = [], msg_how = []\<rparr>)
   \<and> length categories = 6 \<and> distinct (map cat_name categories)"
proof (intro conjI ballI allI impI)
  fix c lv
  assume "c \<in> set categories"
  from templates_entry[OF this, of lv]
  show "\<exists>cm m. messageTemplates (cat_name c) = Some cm \<and> cm lv = Some m
       \<and> selectMessage messageTemplates (cat_name c) lv = m
       \<and> msg_why m \<noteq> [] \<and> msg_how m \<noteq> []"
    by (auto simp: selectMessage_def)
next
  fix c1 c2 lv
  assume c: "c1 \<in> set categories" "c2 \<in> set categories" "c1 \<noteq> c2"
  from cat_names_distinct have "inj_on cat_name (set categories)"
    by (simp add: distinct_map)
  with c have "cat_name c1 \<noteq> cat_name c2" by (auto dest: inj_onD)
  from why_distinct[OF c(1,2) this]
  show "msg_why (selectMessage messageTemplates (cat_name c1) lv)
           \<noteq> msg_why (selectMessage messageTemplates (cat_name c2) lv)" .
next
  fix templates :: "jsstring \<rightharpoonup> (level \<rightharpoonup> message)" and nm lv
  assume "templates nm = None \<or> (\<exists>cm. templates nm = Some cm \<and> cm lv = None)"
  then show "selectMessage templates nm lv = \<lparr>msg_why = [], msg_how = []\<rparr>"
    by (auto simp: selectMessage_def)
next
  show "length categories = 6" by (rule length_categories)
  show "distinct (map cat_name categories)" by (rule cat_names_distinct)
qed

text \<open>
  The theorem at the categories Why now and Clarity with level Basic, and at the name
  Pricing, which the table does not have.
\<close>

theorem C6_narrative_total_witness:
  "\<lparr>cat_name = asc ''Why now'', cat_key = asc ''q2''\<rparr> \<in> set categories
   \<and> \<lparr>cat_name = asc ''Clarity'', cat_key = asc ''q6''\<rparr> \<in> set categories
   \<and> (\<exists>cm m. messageTemplates (asc ''Why now'') = Some cm \<and> cm LBasic = Some m
        \<and> selectMessage messageTemplates (asc ''Why now'') LBasic = m
        \<and> msg_why m \<noteq> [] \<and> msg_how m \<noteq> [])
   \<and> msg_why (selectMessage messageTemplates (asc ''Why now'') LBasic)
        \<noteq> msg_why (selectMessage messageTemplates (asc ''Clarity'') LBasic)
   \<and> messageTemplates (asc ''Pricing'') = None
   \<and> selectMessage messageTemplates (asc ''Pricing'') LBasic = \<lparr>msg_why = [], msg_how = []\<rparr>"
proof -
  let ?c1 = "\<lparr>cat_name = asc ''Why now'', cat_key = asc ''q2''\<rparr>"
  let ?c2 = "\<lparr>cat_name = asc ''Clarity'', cat_key = asc ''q6''\<rparr>"
  have m1: "?c1 \<in> set categories" and m2: "?c2 \<in> set categories"
    by (simp_all add: categories_def)
  have ne: "?c1 \<noteq> ?c2" by (simp add: asc_eq_iff)
  have none: "messageTemplates (asc ''Pricing'') = None"
    by (simp add: messageTemplates_def asc_peel asc_eq_iff)
  from C6_narrative_total have
    a: "\<And>c lv. c \<in> set categories \<Longrightarrow> \<exists>cm m.
       messageTemplates (cat_name c) = Some cm \<and> cm lv = Some m
       \<and> selectMessage messageTemplates (cat_name c) lv = m
       \<and> msg_why m \<noteq> [] \<and> msg_how m \<noteq> []"
    and b: "\<And>c1 c2 lv. c1 \<in> set categories \<Longrightarrow> c2 \<in> set categories \<Longrightarrow> c1 \<noteq> c2 \<Longrightarrow>
         msg_why (selectMessage messageTemplates (cat_name c1) lv)
           \<noteq> msg_why (selectMessage messageTemplates (cat_name c2) lv)"
    and c: "\<And>templates nm lv.
         templates nm = None \<or> (\<exists>cm. templates nm = Some cm \<and> cm lv = None) \<Longrightarrow>
         selectMessage templates nm lv = \<lparr>msg_why = [], msg_how = []\<rparr>"
    by blast+
  from a[OF m1, of LBasic] b[OF m1 m2 ne, of LBasic] c[of messageTemplates "asc ''Pricing''" LBasic] none m1 m2
  show ?thesis by simp
qed

section \<open>Role coaching and next actions (claim C7)\<close>



section \<open>Totality of the fallback scorer (claim C8)\<close>

text \<open>
  The scorer is not total on every body the handler passes on: an answer that is the number
  5 survives \<open>|| ''\<close>, and \<open>trim\<close> is called on it.
\<close>

theorem C8_number_answer_throws:
  "fallbackEvaluate noProfile (answersWith (asc ''q1'') (Num 5)) = Inl TypeError"
  by (rule fallbackEvaluate_throws)
    (simp add: inputOk_def answersWith_def categories_def stringOrFalsy_def truthy_def)

text \<open>
  Claim C8, amended. For every input in which the role of the profile and the answer under
  each of the six keys is a string or a falsy value (absent, \<open>null\<close>, \<open>false\<close>, zero, the
  empty string), the scorer returns a report and throws nothing. The report is complete: it
  echoes the profile; it has six dimension results, each with a name, a score from 1 to 5,
  the level of that score and two non-empty narrative texts; an average of the form digit,
  point, digit; an executive summary; the eight fixed coaching texts, a coaching paragraph
  and five next actions, none of them empty. Absent and other falsy values count as empty
  strings: replacing every answer by the string it stands for gives the same report, and so
  does replacing the role, up to the profile that the report echoes. These are the only
  inputs with a report: on every other input (a role or an answer that is a truthy value
  other than a string) the scorer throws a \<open>TypeError\<close>.
\<close>

theorem C8_report_for_string_or_falsy_values:
  "(inputOk prof answers \<longrightarrow>
     (\<exists>r. fallbackEvaluate prof answers = Inr r
       \<and> profile r = prof
       \<and> length (dimensions r) = 6
       \<and> list_all (\<lambda>d. 1 \<le> score d \<and> score d \<le> 5 \<and> score d = Suc (levelRank (level d))
                       \<and> name d \<noteq> [] \<and> why d \<noteq> [] \<and> how d \<noteq> []) (dimensions r)
       \<and> length (averageScore r) = 3
       \<and> (\<exists>s. executiveSummary r = Some s \<and> s \<noteq> [])
       \<and> headline (coaching r) \<noteq> [] \<and> headlineExplain (coaching r) \<noteq> []
       \<and> urgency (coaching r) \<noteq> [] \<and> urgencyExplain (coaching r) \<noteq> []
       \<and> differentiators (coaching r) \<noteq> [] \<and> differentiatorsExplain (coaching r) \<noteq> []
       \<and> valueOutline (coaching r) \<noteq> [] \<and> valueOutlineExplain (coaching r) \<noteq> []
       \<and> coachingText (coaching r) \<noteq> []
       \<and> length (nextActions (coaching r)) = 5
       \<and> list_all (\<lambda>a. a \<noteq> []) (nextActions (coaching r))
       \<and> fallbackEvaluate prof (\<lambda>k. Str (textOf (answers k))) = Inr r
       \<and> fallbackEvaluate (prof\<lparr>profile_role := Str (textOf (profile_role prof))\<rparr>) answers
           = Inr (r\<lparr>profile := prof\<lparr>profile_role := Str (textOf (profile_role prof))\<rparr>\<rparr>)))
   \<and> (\<exists>r. fallbackEvaluate prof answers = Inr r) = inputOk prof answers
   \<and> (fallbackEvaluate prof answers = Inl TypeError) = (\<not> inputOk prof answers)"
proof (intro conjI impI)
  assume ok: "inputOk prof answers"
  from fallbackEvaluate_fields[OF ok] obtain r where
    r: "fallbackEvaluate prof answers = Inr r"
    and p: "profile r = prof"
    and d: "dimensions r = map (\<lambda>c. dimensionFor c (trim (textOf (answers (cat_key c))))) categories"
    and e: "executiveSummary r = summaryMap (band r)"
    and c: "coachingText (coaching r) = coachingTextOf (toLowerCase (textOf (profile_role prof)))"
    and n: "nextActions (coaching r) = nextActionsOf (band r)"
    and h: "headline (coaching r) \<noteq> []" "headlineExplain (coaching r) \<noteq> []"
      "urgency (coaching r) \<noteq> []" "urgencyExplain (coaching r) \<noteq> []"
      "differentiators (coaching r) \<noteq> []" "differentiatorsExplain (coaching r) \<noteq> []"
      "valueOutline (coaching r) \<noteq> []" "valueOutlineExplain (coaching r) \<noteq> []"
    by blast
  note f = report_average[OF r]
  have dims: "list_all (\<lambda>d. 1 \<le> score d \<and> score d \<le> 5 \<and> score d = Suc (levelRank (level d))
                     \<and> name d \<noteq> [] \<and> why d \<noteq> [] \<and> how d \<noteq> []) (dimensions r)"
    unfolding d list_all_iff
  proof (intro ballI)
    fix x
    assume "x \<in> set (map (\<lambda>c. dimensionFor c (trim (textOf (answers (cat_key c))))) categories)"
    then obtain c where c: "c \<in> set categories"
      and x: "x = dimensionFor c (trim (textOf (answers (cat_key c))))"
      by auto
    show "1 \<le> score x \<and> score x \<le> 5 \<and> score x = Suc (levelRank (level x))
        \<and> name x \<noteq> [] \<and> why x \<noteq> [] \<and> how x \<noteq> []"
      using scoreLevel_range[of "trim (textOf (answers (cat_key c)))"]
        scoreLevel_scale[of "trim (textOf (answers (cat_key c)))"]
        cat_names_nonempty[OF c]
        selectMessage_entry[OF c, of "snd (scoreLevel (trim (textOf (answers (cat_key c)))))"]
      by (simp add: x score_dimensionFor level_dimensionFor name_dimensionFor
          why_dimensionFor how_dimensionFor)
  qed
  have avg: "length (averageScore r) = 3" by (simp add: f(3))
  from summaryMap_total[of "band r"] have es: "\<exists>s. executiveSummary r = Some s \<and> s \<noteq> []"
    by (simp add: e)
  have ct: "coachingText (coaching r) \<noteq> []" by (simp add: c coachingTextOf_nonempty)
  from actionsMap_total[of "band r"] nextActionsOf_keyed[of "band r"]
  have na: "length (nextActions (coaching r)) = 5" "list_all (\<lambda>a. a \<noteq> []) (nextActions (coaching r))"
    by (auto simp: n)
  have ae: "fallbackEvaluate prof (\<lambda>k. Str (textOf (answers k))) = Inr r"
    by (simp add: absent_answers_as_empty[OF ok] r)
  have re: "fallbackEvaluate (prof\<lparr>profile_role := Str (textOf (profile_role prof))\<rparr>) answers
         = Inr (r\<lparr>profile := prof\<lparr>profile_role := Str (textOf (profile_role prof))\<rparr>\<rparr>)"
    by (simp add: absent_role_as_empty[OF ok] r)
  show "\<exists>r. fallbackEvaluate prof answers = Inr r
       \<and> profile r = prof
       \<and> length (dimensions r) = 6
       \<and> list_all (\<lambda>d. 1 \<le> score d \<and> score d \<le> 5 \<and> score d = Suc (levelRank (level d))
                       \<and> name d \<noteq> [] \<and> why d \<noteq> [] \<and> how d \<noteq> []) (dimensions r)
       \<and> length (averageScore r) = 3
       \<and> (\<exists>s. executiveSummary r = Some s \<and> s \<noteq> [])
       \<and> headline (coaching r) \<noteq> [] \<and> headlineExplain (coaching r) \<noteq> []
       \<and> urgency (coaching r) \<noteq> [] \<and> urgencyExplain (coaching r) \<noteq> []
       \<and> differentiators (coaching r) \<noteq> [] \<and> differentiatorsExplain (coaching r) \<noteq> []
       \<and> valueOutline (coaching r) \<noteq> [] \<and> valueOutlineExplain (coaching r) \<noteq> []
       \<and> coachingText (coaching r) \<noteq> []
       \<and> length (nextActions (coaching r)) = 5
       \<and> list_all (\<lambda>a. a \<noteq> []) (nextActions (coaching r))
       \<and> fallbackEvaluate prof (\<lambda>k. Str (textOf (answers k))) = Inr r
       \<and> fallbackEvaluate (prof\<lparr>profile_role := Str (textOf (profile_role prof))\<rparr>) answers
           = Inr (r\<lparr>profile := prof\<lparr>profile_role := Str (textOf (profile_role prof))\<rparr>\<rparr>)"
    by (intro exI[of _ r] conjI r p f(1) dims avg es h ct na ae re)
next
  show "(\<exists>r. fallbackEvaluate prof answers = Inr r) = inputOk prof answers"
    by (rule fallbackEvaluate_Inr_iff)
next
  show "(fallbackEvaluate prof answers = Inl TypeError) = (\<not> inputOk prof answers)"
  proof (cases "inputOk prof answers")
    case True
    from fallbackEvaluate_fields[OF True] obtain r where "fallbackEvaluate prof answers = Inr r"
      by blast
    with True show ?thesis by simp
  next
    case False
    then show ?thesis by (simp add: fallbackEvaluate_throws)
  qed
qed

text \<open>
  The theorem at the input without profile fields whose answers are \<open>null\<close> under
  \<open>q1\<close> and absent under the other keys: the report is the one for empty answers, with
  six results of score 1.
\<close>

theorem C8_report_for_string_or_falsy_values_witness:
  "inputOk noProfile (answersWith (asc ''q1'') Null)
   \<and> (\<exists>r. fallbackEvaluate noProfile (answersWith (asc ''q1'') Null) = Inr r
        \<and> profile r = noProfile
        \<and> length (dimensions r) = 6
        \<and> list_all (\<lambda>d. 1 \<le> score d \<and> score d \<le> 5 \<and> score d = Suc (levelRank (level d))
                       \<and> name d \<noteq> [] \<and> why d \<noteq> [] \<and> how d \<noteq> []) (dimensions r)
        \<and> length (averageScore r) = 3
        \<and> length (nextActions (coaching r)) = 5
        \<and> fallbackEvaluate noProfile (\<lambda>k. Str []) = Inr r)"
proof -
  let ?a = "answersWith (asc ''q1'') Null"
  have ok: "inputOk noProfile ?a"
    by (rule inputOk_examples) (simp add: stringOrFalsy_def truthy_def)
  have t: "(\<lambda>k. Str (textOf (?a k))) = (\<lambda>k. Str [])"
    by (simp add: answersWith_def textOf_def fun_eq_iff)
  from C8_report_for_string_or_falsy_values[of noProfile ?a] ok
  obtain r where "fallbackEvaluate noProfile ?a = Inr r"
    "profile r = noProfile"
    "length (dimensions r) = 6"
    "list_all (\<lambda>d. 1 \<le> score d \<and> score d \<le> 5 \<and> score d = Suc (levelRank (level d))
                       \<and> name d \<noteq> [] \<and> why d \<noteq> [] \<and> how d \<noteq> []) (dimensions r)"
    "length (averageScore r) = 3"
    "length (nextActions (coaching r)) = 5"
    "fallbackEvaluate noProfile (\<lambda>k. Str (textOf (?a k))) = Inr r"
    by blast
  with ok show ?thesis unfolding t by (intro conjI exI[of _ r])
qed

section \<open>The method guard (claim C9)\<close>

lemma module_exports_not_POST:
  "reqMethod \<noteq> asc ''POST'' \<Longrightarrow>
   module_exports reqMethod =
     Some \<lparr>statusCode = 405, headers = [(asc ''Allow'', asc ''POST'')],
           body = stringifyError (asc ''Method not allowed'')\<rparr>"
  by (simp add: module_exports_def)

lemma handler_not_POST:
  "reqMethod \<noteq> asc ''POST'' \<Longrightarrow>
   handler reqMethod =
     Some \<lparr>statusCode = 405, headers = [], body = stringifyError (asc ''Use POST'')\<rparr>"
  by (simp add: handler_def)

text \<open>
  Claim C9 (the code departs from it). The Node handler answers a request that is not a
  POST with status 405, the header \<open>Allow: POST\<close> and a JSON error body
  (\<open>module_exports_not_POST\<close>). The edge handler of \<open>api/evaluate.js\<close> answers a GET
  with status 405 and a JSON error body, but sets no header: the response has no
  \<open>Allow\<close> header.
\<close>

theorem C9_edge_handler_GET_has_no_Allow_header:
  "handler (asc ''GET'') =
     Some \<lparr>statusCode = 405, headers = [], body = stringifyError (asc ''Use POST'')\<rparr>
   \<and> map_of (headers (the (handler (asc ''GET'')))) (asc ''Allow'') = None"
  by (simp add: handler_def asc_eq_iff)

section \<open>The suggested final value proposition (claim C10)\<close>

text \<open>
  Claim C10. The final value proposition of a report is the trimmed answer to the sixth
  question when that answer is present and not the empty string, and otherwise (the answer
  is absent, empty or another falsy value) the fixed sentence that begins with
  \<open>Craft your value proposition here\<close>. Reports are produced for the inputs whose role
  and answers are strings or falsy.
\<close>

theorem C10_final_value_echoes_q6:
  "inputOk prof answers \<Longrightarrow>
   \<exists>r. fallbackEvaluate prof answers = Inr r
     \<and> finalValue (coaching r) =
         (case answers (asc ''q6'') of
            Str s \<Rightarrow> if s = [] then finalValuePlaceholder else trim s
          | _ \<Rightarrow> finalValuePlaceholder)
     \<and> take 33 finalValuePlaceholder = asc ''Craft your value proposition here''"
proof -
  assume ok: "inputOk prof answers"
  from fallbackEvaluate_fields[OF ok] obtain r where
    r: "fallbackEvaluate prof answers = Inr r"
    and v: "finalValue (coaching r) =
         (if truthy (answers (asc ''q6'')) then trim (textOf (answers (asc ''q6'')))
          else finalValuePlaceholder)"
    by blast
  have 1: "finalValue (coaching r) =
         (case answers (asc ''q6'') of
            Str s \<Rightarrow> if s = [] then finalValuePlaceholder else trim s
          | _ \<Rightarrow> finalValuePlaceholder)"
    unfolding v using inputOk_q6[OF ok]
    by (cases "answers (asc ''q6'')") (simp_all add: truthy_def textOf_def stringOrFalsy_def)
  have 2: "take 33 finalValuePlaceholder = asc ''Craft your value proposition here''"
    by (simp add: finalValuePlaceholder_def asc_def)
  show "\<exists>r. fallbackEvaluate prof answers = Inr r
     \<and> finalValue (coaching r) =
         (case answers (asc ''q6'') of
            Str s \<Rightarrow> if s = [] then finalValuePlaceholder else trim s
          | _ \<Rightarrow> finalValuePlaceholder)
     \<and> take 33 finalValuePlaceholder = asc ''Craft your value proposition here''"
    by (intro exI[of _ r] conjI r 1 2)
qed

text \<open>
  The theorem at the input whose only answer is \<open>x y\<close>, with two spaces before and one
  after, to the sixth question.
\<close>

theorem C10_final_value_echoes_q6_witness:
  "inputOk noProfile (answersWith (asc ''q6'') (Str (asc ''  x y '')))
   \<and> (\<exists>r. fallbackEvaluate noProfile (answersWith (asc ''q6'') (Str (asc ''  x y ''))) = Inr r
        \<and> finalValue (coaching r) = asc ''x y'')"
proof -
  let ?a = "answersWith (asc ''q6'') (Str (asc ''  x y ''))"
  have ok: "inputOk noProfile ?a"
    by (rule inputOk_examples) (simp add: stringOrFalsy_def)
  have t: "(case ?a (asc ''q6'') of
            Str s \<Rightarrow> if s = [] then finalValuePlaceholder else trim s
          | _ \<Rightarrow> finalValuePlaceholder) = asc ''x y''"
    by (simp add: answersWith_def trim_def isWhiteSpace_def asc_def)
  from C10_final_value_echoes_q6[OF ok] obtain r where
    "fallbackEvaluate noProfile ?a = Inr r"
    "finalValue (coaching r) =
         (case ?a (asc ''q6'') of
            Str s \<Rightarrow> if s = [] then finalValuePlaceholder else trim s
          | _ \<Rightarrow> finalValuePlaceholder)"
    by blast
  with ok show ?thesis unfolding t by (intro conjI exI[of _ r])
qed

end
